theory Spec2Isabelle
  imports Main "HOL-Library.Word"
begin

section \<open>Python values, exceptions and text primitives\<close>

text \<open>
  The repository is untyped Python: dictionaries decoded from JSON, strings, lists and
  \<^verbatim>\<open>None\<close> travel through the same variables. They are modelled by one datatype of
  dynamic values. A dictionary is an association list in insertion order; all keys in
  the modelled code are strings. JSON numbers are modelled as integers (floating point
  values are outside the model).

  Python text is modelled as \<^typ>\<open>string\<close>; a \<^typ>\<open>char\<close> stands for the code point
  of the same number (0 to 255), and the character classes below are Python's classes
  on that range.
\<close>

datatype pyval =
    PNone
  | PBool bool
  | PInt int
  | PStr string
  | PList "pyval list"
  | PDict "(string \<times> pyval) list"

text \<open>An exception is its class name and its message \<^verbatim>\<open>str(e)\<close>.\<close>

datatype exn = Exn (exn_class: string) (str_e: string)

type_synonym bytes = "8 word list"

type_synonym dict = "(string \<times> pyval) list"

fun truthy :: "pyval \<Rightarrow> bool" where
  "truthy PNone = False"
| "truthy (PBool b) = b"
| "truthy (PInt i) = (i \<noteq> 0)"
| "truthy (PStr s) = (s \<noteq> [])"
| "truthy (PList xs) = (xs \<noteq> [])"
| "truthy (PDict kvs) = (kvs \<noteq> [])"


fun type_name :: "pyval \<Rightarrow> string" where
  "type_name PNone = ''NoneType''"
| "type_name (PBool b) = ''bool''"
| "type_name (PInt i) = ''int''"
| "type_name (PStr s) = ''str''"
| "type_name (PList xs) = ''list''"
| "type_name (PDict kvs) = ''dict''"

definition quoted :: "string \<Rightarrow> string" where
  "quoted s = CHR 0x27 # s @ [CHR 0x27]"

definition no_attribute :: "pyval \<Rightarrow> string \<Rightarrow> exn" where
  "no_attribute v attr =
     Exn ''AttributeError'' (quoted (type_name v) @ '' object has no attribute '' @ quoted attr)"

text \<open>\<^verbatim>\<open>d.get(k)\<close> and \<^verbatim>\<open>d.get(k, default)\<close> on a dictionary.\<close>

definition dict_get :: "dict \<Rightarrow> string \<Rightarrow> pyval" where
  "dict_get d k = (case map_of d k of None \<Rightarrow> PNone | Some v \<Rightarrow> v)"

definition dict_get_default :: "dict \<Rightarrow> string \<Rightarrow> pyval \<Rightarrow> pyval" where
  "dict_get_default d k dflt = (case map_of d k of None \<Rightarrow> dflt | Some v \<Rightarrow> v)"

text \<open>\<^verbatim>\<open>d[k] = v\<close>: an existing key keeps its position, a new key is appended.\<close>

fun dict_set :: "string \<Rightarrow> pyval \<Rightarrow> dict \<Rightarrow> dict" where
  "dict_set k v [] = [(k, v)]"
| "dict_set k v (p # ps) = (if fst p = k then (k, v) # ps else p # dict_set k v ps)"

text \<open>\<^verbatim>\<open>v.get(k)\<close> on a dynamic value: only a dictionary has the method.\<close>

fun py_get :: "pyval \<Rightarrow> string \<Rightarrow> exn + pyval" where
  "py_get (PDict d) k = Inr (dict_get d k)"
| "py_get v k = Inl (no_attribute v ''get'')"

text \<open>\<^verbatim>\<open>len(v)\<close>\<close>

fun py_len :: "pyval \<Rightarrow> exn + nat" where
  "py_len (PStr s) = Inr (length s)"
| "py_len (PList xs) = Inr (length xs)"
| "py_len (PDict d) = Inr (length d)"
| "py_len v = Inl (Exn ''TypeError'' (''object of type '' @ quoted (type_name v) @ '' has no len()''))"

text \<open>
  \<^verbatim>\<open>for x in v\<close>: a list yields its items, a dictionary its keys, a string its
  characters as one-character strings.
\<close>

fun py_iter :: "pyval \<Rightarrow> exn + pyval list" where
  "py_iter (PList xs) = Inr xs"
| "py_iter (PDict d) = Inr (map (\<lambda>kv. PStr (fst kv)) d)"
| "py_iter (PStr s) = Inr (map (\<lambda>c. PStr [c]) s)"
| "py_iter v = Inl (Exn ''TypeError'' (quoted (type_name v) @ '' object is not iterable''))"

subsection \<open>Character classes\<close>

definition code_point :: "char \<Rightarrow> nat" where
  "code_point c = of_char c"

definition between :: "char \<Rightarrow> char \<Rightarrow> char \<Rightarrow> bool" where
  "between lo hi c = (code_point lo \<le> code_point c \<and> code_point c \<le> code_point hi)"

text \<open>\<^verbatim>\<open>str.isspace\<close>, which is also \<^verbatim>\<open>\s\<close> of \<^verbatim>\<open>re\<close> on text.\<close>

definition is_space :: "char \<Rightarrow> bool" where
  "is_space c = (let n = code_point c in
     (9 \<le> n \<and> n \<le> 13) \<or> (28 \<le> n \<and> n \<le> 32) \<or> n = 133 \<or> n = 160)"

text \<open>\<^verbatim>\<open>\d\<close> of \<^verbatim>\<open>re\<close>: the decimal digits.\<close>

definition re_digit :: "char \<Rightarrow> bool" where
  "re_digit c = between CHR ''0'' CHR ''9'' c"

text \<open>\<^verbatim>\<open>str.isdigit\<close>: the decimal digits and the superscripts 1, 2, 3.\<close>

definition str_isdigit :: "char \<Rightarrow> bool" where
  "str_isdigit c = (re_digit c \<or> code_point c = 178 \<or> code_point c = 179 \<or> code_point c = 185)"

definition is_upper_az :: "char \<Rightarrow> bool" where
  "is_upper_az c = between CHR ''A'' CHR ''Z'' c"

definition is_lower_az :: "char \<Rightarrow> bool" where
  "is_lower_az c = between CHR ''a'' CHR ''z'' c"

text \<open>\<^verbatim>\<open>\w\<close> of \<^verbatim>\<open>re\<close> on text: alphanumeric characters and the underscore.\<close>

definition is_word :: "char \<Rightarrow> bool" where
  "is_word c = (let n = code_point c in
     re_digit c \<or> is_upper_az c \<or> is_lower_az c \<or> c = CHR ''_''
     \<or> n = 170 \<or> n = 178 \<or> n = 179 \<or> n = 181 \<or> n = 185 \<or> n = 186
     \<or> (188 \<le> n \<and> n \<le> 190) \<or> (192 \<le> n \<and> n \<le> 214)
     \<or> (216 \<le> n \<and> n \<le> 246) \<or> (248 \<le> n \<and> n \<le> 255))"

definition lower_char :: "char \<Rightarrow> char" where
  "lower_char c = (let n = code_point c in
     if (65 \<le> n \<and> n \<le> 90) \<or> (192 \<le> n \<and> n \<le> 222 \<and> n \<noteq> 215)
     then char_of (n + 32) else c)"

subsection \<open>String methods\<close>

definition py_lower :: "string \<Rightarrow> string" where
  "py_lower s = map lower_char s"

definition py_strip :: "string \<Rightarrow> string" where
  "py_strip s = rev (dropWhile is_space (rev (dropWhile is_space s)))"

text \<open>\<^verbatim>\<open>s.split(c)\<close> for a one-character separator: empty pieces are kept.\<close>

fun py_split :: "char \<Rightarrow> string \<Rightarrow> string list" where
  "py_split sep [] = [[]]"
| "py_split sep (c # cs) =
     (if c = sep then [] # py_split sep cs
      else (case py_split sep cs of [] \<Rightarrow> [[c]] | p # ps \<Rightarrow> (c # p) # ps))"

text \<open>\<^verbatim>\<open>s.split(c, 1)\<close> when \<^verbatim>\<open>c\<close> occurs in \<^verbatim>\<open>s\<close>: the parts before and after the first one.\<close>

definition py_split_first :: "char \<Rightarrow> string \<Rightarrow> string \<times> string" where
  "py_split_first sep s = (takeWhile (\<lambda>c. c \<noteq> sep) s, drop 1 (dropWhile (\<lambda>c. c \<noteq> sep) s))"

text \<open>\<^verbatim>\<open>s.split()\<close>: the maximal runs of non-whitespace characters.\<close>

fun py_split_ws :: "string \<Rightarrow> string list" where
  "py_split_ws [] = []"
| "py_split_ws (c # cs) =
     (if is_space c then py_split_ws cs
      else (case cs of
              [] \<Rightarrow> [[c]]
            | d # ds \<Rightarrow>
                if is_space d then [c] # py_split_ws cs
                else (case py_split_ws cs of [] \<Rightarrow> [[c]] | w # ws \<Rightarrow> (c # w) # ws)))"

text \<open>\<^verbatim>\<open>' '.join(words)\<close>\<close>

fun py_join :: "string list \<Rightarrow> string" where
  "py_join [] = []"
| "py_join [w] = w"
| "py_join (w # ws) = w @ '' '' @ py_join ws"

text \<open>\<^verbatim>\<open>sub in s\<close> on strings.\<close>

fun starts_with :: "string \<Rightarrow> string \<Rightarrow> bool" where
  "starts_with [] s = True"
| "starts_with (p # ps) [] = False"
| "starts_with (p # ps) (c # cs) = (p = c \<and> starts_with ps cs)"

fun contains :: "string \<Rightarrow> string \<Rightarrow> bool" where
  "contains sub [] = (sub = [])"
| "contains sub (c # cs) = (starts_with sub (c # cs) \<or> contains sub cs)"

section \<open>Regular expressions: a backtracking matcher\<close>

text \<open>
  The patterns of the repository are matched by Python's \<^verbatim>\<open>re\<close>, a backtracking
  matcher: alternatives are tried from left to right, \<^verbatim>\<open>?\<close>, \<^verbatim>\<open>+\<close> and
  \<^verbatim>\<open>{m,n}\<close> are greedy, and the first way to match that lets the rest of the pattern
  match is taken. The matcher below does the same in continuation-passing style. The
  repository's patterns repeat single character classes only, so repetition takes a
  class; a repeated group \<^verbatim>\<open>(g){1,2}\<close> is written \<open>Seq g (Opt g)\<close>.

  A position is the character before it (none at the start of the text) and the text
  after it; \<^verbatim>\<open>\b\<close>, \<^verbatim>\<open>^\<close> and \<^verbatim>\<open>$\<close> (both under \<^verbatim>\<open>re.MULTILINE\<close>) look at
  the two sides of the position.
\<close>

datatype regex =
    Cls "char \<Rightarrow> bool"
  | Seq regex regex
  | Alt regex regex
  | Opt regex
  | Rep "char \<Rightarrow> bool" nat "nat option"
  | WordB
  | Bol
  | Eol
  | Eps

fun rep_match ::
  "(char \<Rightarrow> bool) \<Rightarrow> nat \<Rightarrow> nat option \<Rightarrow> char option \<Rightarrow> string
     \<Rightarrow> (char option \<Rightarrow> string \<Rightarrow> 'a option) \<Rightarrow> 'a option" where
  "rep_match p lo hi prev [] k = (if lo = 0 then k prev [] else None)"
| "rep_match p lo hi prev (c # cs) k =
     (if p c \<and> hi \<noteq> Some 0 then
        (case rep_match p (lo - 1) (map_option (\<lambda>h. h - 1) hi) (Some c) cs k of
           Some r \<Rightarrow> Some r
         | None \<Rightarrow> if lo = 0 then k prev (c # cs) else None)
      else if lo = 0 then k prev (c # cs) else None)"

definition at_word_boundary :: "char option \<Rightarrow> string \<Rightarrow> bool" where
  "at_word_boundary prev s =
     ((case prev of None \<Rightarrow> False | Some c \<Rightarrow> is_word c)
        \<noteq> (case s of [] \<Rightarrow> False | c # cs \<Rightarrow> is_word c))"

fun rmatch ::
  "regex \<Rightarrow> char option \<Rightarrow> string \<Rightarrow> (char option \<Rightarrow> string \<Rightarrow> 'a option) \<Rightarrow> 'a option" where
  "rmatch (Cls p) prev s k =
     (case s of [] \<Rightarrow> None | c # cs \<Rightarrow> if p c then k (Some c) cs else None)"
| "rmatch (Seq a b) prev s k = rmatch a prev s (\<lambda>prev' s'. rmatch b prev' s' k)"
| "rmatch (Alt a b) prev s k =
     (case rmatch a prev s k of Some r \<Rightarrow> Some r | None \<Rightarrow> rmatch b prev s k)"
| "rmatch (Opt a) prev s k =
     (case rmatch a prev s k of Some r \<Rightarrow> Some r | None \<Rightarrow> k prev s)"
| "rmatch (Rep p lo hi) prev s k = rep_match p lo hi prev s k"
| "rmatch WordB prev s k = (if at_word_boundary prev s then k prev s else None)"
| "rmatch Bol prev s k = (if prev = None \<or> prev = Some (CHR 0x0A) then k prev s else None)"
| "rmatch Eol prev s k = (if s = [] \<or> hd s = CHR 0x0A then k prev s else None)"
| "rmatch Eps prev s k = k prev s"

text \<open>The match of a pattern at a position: the position after it.\<close>

definition match_at :: "regex \<Rightarrow> char option \<Rightarrow> string \<Rightarrow> (char option \<times> string) option" where
  "match_at r prev s = rmatch r prev s (\<lambda>prev' s'. Some (prev', s'))"

text \<open>
  \<^verbatim>\<open>pattern.search(text)\<close>: the first position, from the left, where the pattern
  matches; the result is \<^verbatim>\<open>match.group(0)\<close>.
\<close>

fun search_from :: "regex \<Rightarrow> char option \<Rightarrow> string \<Rightarrow> string option" where
  "search_from r prev [] =
     (case match_at r prev [] of Some (p', s') \<Rightarrow> Some [] | None \<Rightarrow> None)"
| "search_from r prev (c # cs) =
     (case match_at r prev (c # cs) of
        Some (p', s') \<Rightarrow> Some (take (Suc (length cs) - length s') (c # cs))
      | None \<Rightarrow> search_from r (Some c) cs)"

definition re_search :: "regex \<Rightarrow> string \<Rightarrow> string option" where
  "re_search r text = search_from r None text"

text \<open>
  \<^verbatim>\<open>re.sub(pattern, '', text)\<close>: every match, from the left and without overlap, is
  removed. A match that consumes nothing removes nothing.
\<close>

fun sub_from :: "regex \<Rightarrow> char option \<Rightarrow> string \<Rightarrow> string" where
  "sub_from r prev [] = []"
| "sub_from r prev (c # cs) =
     (case match_at r prev (c # cs) of
        Some (p', s') \<Rightarrow>
          if length s' < Suc (length cs) then sub_from r p' s'
          else c # sub_from r (Some c) cs
      | None \<Rightarrow> c # sub_from r (Some c) cs)"

definition re_sub_empty :: "regex \<Rightarrow> string \<Rightarrow> string" where
  "re_sub_empty r text = sub_from r None text"

fun seqs :: "regex list \<Rightarrow> regex" where
  "seqs [] = Eps"
| "seqs [r] = r"
| "seqs (r # rs) = Seq r (seqs rs)"

definition lit :: "char \<Rightarrow> regex" where
  "lit c = Cls (\<lambda>x. x = c)"

definition one_of :: "string \<Rightarrow> char \<Rightarrow> bool" where
  "one_of cs c = (c \<in> set cs)"

section \<open>The reference string parser (\<^verbatim>\<open>main.py\<close>)\<close>

text \<open>
  \<^verbatim>\<open>email_pattern = r'\b[A-Za-z0-9._%+-]+@[A-Za-z0-9.-]+\.[A-Z|a-z]{2,}\b'\<close>
\<close>

definition alnum_az :: "char \<Rightarrow> bool" where
  "alnum_az c = (is_upper_az c \<or> is_lower_az c \<or> re_digit c)"

definition email_pattern :: regex where
  "email_pattern = seqs
     [WordB,
      Rep (\<lambda>c. alnum_az c \<or> one_of ''._%+-'' c) 1 None,
      lit CHR ''@'',
      Rep (\<lambda>c. alnum_az c \<or> one_of ''.-'' c) 1 None,
      lit CHR ''.'',
      Rep (\<lambda>c. is_upper_az c \<or> c = CHR ''|'' \<or> is_lower_az c) 2 None,
      WordB]"

text \<open>
  \<^verbatim>\<open>phone_pattern = r'(\+?\d{1,3}[-.\s]?)?\(?\d{3}\)?[-.\s]?\d{3}[-.\s]?\d{4}'\<close>
\<close>

definition phone_sep :: "char \<Rightarrow> bool" where
  "phone_sep c = (one_of ''-.'' c \<or> is_space c)"

definition phone_pattern :: regex where
  "phone_pattern = seqs
     [Opt (seqs [Opt (lit CHR ''+''), Rep re_digit 1 (Some 3), Opt (Cls phone_sep)]),
      Opt (lit CHR ''(''),
      Rep re_digit 3 (Some 3),
      Opt (lit CHR '')''),
      Opt (Cls phone_sep),
      Rep re_digit 3 (Some 3),
      Opt (Cls phone_sep),
      Rep re_digit 4 (Some 4)]"

text \<open>
  Lines 75 to 81: the first email match is kept, and \<^verbatim>\<open>re.sub\<close> removes every match
  from the text. The pair is \<^verbatim>\<open>(email, reference_text)\<close> after the step.
\<close>

definition extract_email :: "string \<Rightarrow> string \<times> string" where
  "extract_email reference_text =
     (case re_search email_pattern reference_text of
        Some email_match \<Rightarrow> (email_match, py_strip (re_sub_empty email_pattern reference_text))
      | None \<Rightarrow> ([], reference_text))"

text \<open>Lines 83 to 89, the same for the phone number.\<close>

definition extract_phone :: "string \<Rightarrow> string \<times> string" where
  "extract_phone reference_text =
     (case re_search phone_pattern reference_text of
        Some phone_match \<Rightarrow>
          (py_strip phone_match, py_strip (re_sub_empty phone_pattern reference_text))
      | None \<Rightarrow> ([], reference_text))"

text \<open>
  Lines 91 to 96: the loop over the separators stops at the first separator that occurs
  in the text, also when every piece between the separators is blank.
\<close>

fun split_parts :: "char list \<Rightarrow> string \<Rightarrow> string list" where
  "split_parts [] reference_text = []"
| "split_parts (separator # separators) reference_text =
     (if separator \<in> set reference_text
      then map py_strip (filter (\<lambda>part. py_strip part \<noteq> []) (py_split separator reference_text))
      else split_parts separators reference_text)"

text \<open>Lines 112 to 117: words with an \<^verbatim>\<open>@\<close> or a digit are dropped from the company.\<close>

definition clean_company :: "string \<Rightarrow> string" where
  "clean_company company =
     py_strip (py_join
       (filter (\<lambda>word. \<not> (CHR ''@'' \<in> set word \<or> list_ex str_isdigit word))
          (py_split_ws company)))"

text \<open>Lines 103 to 120: the pair is \<^verbatim>\<open>(name, company)\<close>.\<close>

definition name_company :: "string \<Rightarrow> string \<times> string" where
  "name_company name_company_part =
     (if CHR '','' \<in> set name_company_part
      then (let name_company_split = py_split_first CHR '','' name_company_part
            in (py_strip (fst name_company_split),
                clean_company (py_strip (snd name_company_split))))
      else (name_company_part, []))"

definition relationship_keywords :: "string list" where
  "relationship_keywords =
     [''relationship'', ''relation'', ''worked'', ''manager'', ''supervisor'', ''colleague'']"

text \<open>Lines 123 to 128: the loop over \<^verbatim>\<open>parts[1:]\<close>, on the pair \<^verbatim>\<open>(company, relationship)\<close>.\<close>

fun remaining_parts :: "string list \<Rightarrow> string \<times> string \<Rightarrow> string \<times> string" where
  "remaining_parts [] cr = cr"
| "remaining_parts (part # parts) (company, relationship) =
     (if list_ex (\<lambda>keyword. contains keyword (py_lower part)) relationship_keywords
      then remaining_parts parts (company, py_strip part)
      else if company = [] \<and> length part > 2
      then remaining_parts parts (py_strip part, relationship)
      else remaining_parts parts (company, relationship))"

text \<open>Lines 131 to 133.\<close>

definition cleanup_name :: "string \<Rightarrow> string" where
  "cleanup_name name =
     (if CHR ''@'' \<in> set name
      then py_strip (py_join (filter (\<lambda>part. CHR ''@'' \<notin> set part) (py_split_ws name)))
      else name)"

record reference_record =
  ref_name :: string
  ref_email :: string
  ref_phone_number :: string
  ref_company :: string
  ref_relationship :: string

text \<open>The dictionary literal of lines 146 to 152 and of the handler, lines 159 to 165.\<close>

definition record_dict :: "pyval \<Rightarrow> string \<Rightarrow> string \<Rightarrow> string \<Rightarrow> string \<Rightarrow> dict" where
  "record_dict n e p c r =
     [(''name'', n), (''email'', PStr e), (''phone_number'', PStr p),
      (''company'', PStr c), (''relationship'', PStr r)]"

text \<open>
  Lines 73 to 133: the \<^verbatim>\<open>try\<close> block once \<^verbatim>\<open>reference_text.strip()\<close> has
  succeeded, that is, on a string. No later statement of the block can raise: the searches, the
  substitutions and the splits are defined on every string, and \<^verbatim>\<open>parts[0]\<close> is
  read after \<^verbatim>\<open>parts\<close> has been made non-empty.
\<close>

definition found_fields :: "string \<Rightarrow> reference_record" where
  "found_fields reference_text0 =
     (let reference_text = py_strip reference_text0;
          (email, reference_text) = extract_email reference_text;
          (phone_number, reference_text) = extract_phone reference_text;
          parts = split_parts ''|,;-'' reference_text;
          parts = (if parts = [] then [reference_text] else parts);
          (name, company) = name_company (hd parts);
          (company, relationship) = remaining_parts (tl parts) (company, []);
          name = cleanup_name name
      in \<lparr>ref_name = name, ref_email = email, ref_phone_number = phone_number,
          ref_company = company, ref_relationship = relationship\<rparr>)"

text \<open>Lines 136 to 138: a name that was not found becomes the sentinel.\<close>

definition parse_reference_fields :: "string \<Rightarrow> reference_record" where
  "parse_reference_fields reference_text =
     (let found = found_fields reference_text in
      if ref_name found = [] then found\<lparr>ref_name := ''Unknown Reference''\<rparr> else found)"

definition parsed_data :: "reference_record \<Rightarrow> dict" where
  "parsed_data r =
     record_dict (PStr (ref_name r)) (ref_email r) (ref_phone_number r)
       (ref_company r) (ref_relationship r)"

text \<open>
  The \<^verbatim>\<open>try\<close> block: its first statement \<^verbatim>\<open>reference_text.strip()\<close> raises
  \<^verbatim>\<open>AttributeError\<close> on a value that is not a string.
\<close>

fun parse_reference_try :: "pyval \<Rightarrow> exn + dict" where
  "parse_reference_try (PStr s) = Inr (parsed_data (parse_reference_fields s))"
| "parse_reference_try v = Inl (no_attribute v ''strip'')"

text \<open>\<^verbatim>\<open>reference_text[:100]\<close>\<close>

fun py_slice_100 :: "pyval \<Rightarrow> exn + pyval" where
  "py_slice_100 (PStr s) = Inr (PStr (take 100 s))"
| "py_slice_100 (PList xs) = Inr (PList (take 100 xs))"
| "py_slice_100 (PDict d) = Inl (Exn ''TypeError'' (''unhashable type: '' @ quoted ''slice''))"
| "py_slice_100 v = Inl (Exn ''TypeError'' (quoted (type_name v) @ '' object is not subscriptable''))"

text \<open>
  The \<^verbatim>\<open>except Exception\<close> handler, lines 157 to 165. It reads the variable
  \<^verbatim>\<open>reference_text\<close>; the only statement that can raise is the first one, so the
  variable still holds the argument. The slice in the handler is not guarded: it
  raises in its turn on a non-empty dictionary or a non-zero number.
\<close>

definition parse_reference_except :: "pyval \<Rightarrow> exn + dict" where
  "parse_reference_except reference_text =
     (if truthy reference_text
      then (case py_slice_100 reference_text of
              Inl e \<Rightarrow> Inl e
            | Inr n \<Rightarrow> Inr (record_dict n [] [] [] []))
      else Inr (record_dict (PStr ''Unknown Reference'') [] [] [] []))"

definition parse_reference_data :: "pyval \<Rightarrow> exn + dict" where
  "parse_reference_data reference_text =
     (case parse_reference_try reference_text of
        Inr d \<Rightarrow> Inr d
      | Inl e \<Rightarrow> parse_reference_except reference_text)"

section \<open>The validation pass (\<^verbatim>\<open>validate_extracted_data\<close>, \<^verbatim>\<open>main.py\<close>)\<close>

text \<open>\<^verbatim>\<open>ref.strip()\<close> on a dynamic value.\<close>

fun py_str_strip :: "pyval \<Rightarrow> exn + string" where
  "py_str_strip (PStr s) = Inr (py_strip s)"
| "py_str_strip v = Inl (no_attribute v ''strip'')"

text \<open>
  The loop of lines 191 to 202, with \<^verbatim>\<open>valid_references\<close> as accumulator. Neither
  \<^verbatim>\<open>ref.strip()\<close> nor the call of the parser is inside a \<^verbatim>\<open>try\<close>: an exception
  leaves the function.
\<close>

fun validate_loop :: "pyval list \<Rightarrow> dict list \<Rightarrow> exn + dict list" where
  "validate_loop [] valid_references = Inr valid_references"
| "validate_loop (ref # refs) valid_references =
     (if \<not> truthy ref then validate_loop refs valid_references
      else (case py_str_strip ref of
              Inl e \<Rightarrow> Inl e
            | Inr stripped \<Rightarrow>
                if stripped = [] then validate_loop refs valid_references
                else (case parse_reference_data ref of
                        Inl e \<Rightarrow> Inl e
                      | Inr parsed_ref \<Rightarrow>
                          if \<not> truthy (dict_get parsed_ref ''name'')
                             \<or> dict_get parsed_ref ''name'' = PStr ''Unknown Reference''
                          then validate_loop refs valid_references
                          else validate_loop refs (valid_references @ [parsed_ref]))))"

text \<open>\<^verbatim>\<open>sum(1 for ref in valid_references if cond(ref))\<close>\<close>

definition count_if :: "(dict \<Rightarrow> bool) \<Rightarrow> dict list \<Rightarrow> int" where
  "count_if cond valid_references = int (length (filter cond valid_references))"

definition validation_summary :: "dict list \<Rightarrow> pyval" where
  "validation_summary valid_references = PDict
     [(''total_references'', PInt (int (length valid_references))),
      (''with_email'', PInt (count_if (\<lambda>ref. truthy (dict_get ref ''email'')) valid_references)),
      (''with_phone'',
         PInt (count_if (\<lambda>ref. truthy (dict_get ref ''phone_number'')) valid_references)),
      (''missing_info'',
         PInt (int (length valid_references)
               - count_if (\<lambda>ref. truthy (dict_get ref ''email'')
                                 \<or> truthy (dict_get ref ''phone_number'')) valid_references))]"

definition zero_summary :: pyval where
  "zero_summary = PDict
     [(''total_references'', PInt 0), (''with_email'', PInt 0),
      (''with_phone'', PInt 0), (''missing_info'', PInt 0)]"

definition validate_extracted_data :: "dict \<Rightarrow> exn + dict" where
  "validate_extracted_data result =
     (if result = [] then Inr [(''error'', PStr ''No data extracted from resume'')]
      else
        (let references = dict_get_default result ''references'' (PList []) in
         if \<not> truthy references
         then Inr (dict_set ''validation_summary'' zero_summary
                     (dict_set ''validated_references'' (PList []) result))
         else (case py_iter references of
                 Inl e \<Rightarrow> Inl e
               | Inr refs \<Rightarrow>
                   (case validate_loop refs [] of
                      Inl e \<Rightarrow> Inl e
                    | Inr valid_references \<Rightarrow>
                        Inr (dict_set ''validation_summary'' (validation_summary valid_references)
                               (dict_set ''validated_references''
                                  (PList (map PDict valid_references)) result))))))"

section \<open>The fallback extractor and the merge (\<^verbatim>\<open>process_resume\<close>, \<^verbatim>\<open>main.py\<close>)\<close>

text \<open>
  Line 284: \<^verbatim>\<open>[a-zA-Z0-9._%+-]+@[a-zA-Z0-9.-]+\.[a-zA-Z]{2,}\<close>
\<close>

definition fallback_email_pattern :: regex where
  "fallback_email_pattern = seqs
     [Rep (\<lambda>c. alnum_az c \<or> one_of ''._%+-'' c) 1 None,
      lit CHR ''@'',
      Rep (\<lambda>c. alnum_az c \<or> one_of ''.-'' c) 1 None,
      lit CHR ''.'',
      Rep (\<lambda>c. is_lower_az c \<or> is_upper_az c) 2 None]"

text \<open>
  Line 286:
  \<^verbatim>\<open>(\+?61\s?)?\(?0?\)?\s?[1-9]\d{1}\s?\d{3}\s?\d{3}|04\d{2}\s?\d{3}\s?\d{3}\<close>
\<close>

definition fallback_phone_pattern :: regex where
  "fallback_phone_pattern = Alt
     (seqs
        [Opt (seqs [Opt (lit CHR ''+''), lit CHR ''6'', lit CHR ''1'', Opt (Cls is_space)]),
         Opt (lit CHR ''(''),
         Opt (lit CHR ''0''),
         Opt (lit CHR '')''),
         Opt (Cls is_space),
         Cls (between CHR ''1'' CHR ''9''),
         Rep re_digit 1 (Some 1),
         Opt (Cls is_space),
         Rep re_digit 3 (Some 3),
         Opt (Cls is_space),
         Rep re_digit 3 (Some 3)])
     (seqs
        [lit CHR ''0'', lit CHR ''4'',
         Rep re_digit 2 (Some 2),
         Opt (Cls is_space),
         Rep re_digit 3 (Some 3),
         Opt (Cls is_space),
         Rep re_digit 3 (Some 3)])"

text \<open>
  Line 288, compiled with \<^verbatim>\<open>re.MULTILINE\<close>:
  \<^verbatim>\<open>^([A-Z][a-z]+(?:\s+[A-Z][a-z]+){1,2})(?:\s|$)\<close>
\<close>

definition capitalized_token :: regex where
  "capitalized_token = Seq (Cls is_upper_az) (Rep is_lower_az 1 None)"

definition fallback_name_pattern :: regex where
  "fallback_name_pattern = seqs
     [Bol,
      capitalized_token,
      Seq (Rep is_space 1 None) capitalized_token,
      Opt (Seq (Rep is_space 1 None) capitalized_token),
      Alt (Cls is_space) Eol]"

record fallback_data =
  fb_name :: string
  fb_email :: string
  fb_phone :: string

text \<open>Lines 290 to 298. The name is searched in the first 500 characters only.\<close>

definition group_or_empty :: "string option \<Rightarrow> string" where
  "group_or_empty m = (case m of Some g \<Rightarrow> g | None \<Rightarrow> [])"

definition fallback_extract :: "string \<Rightarrow> fallback_data" where
  "fallback_extract text =
     \<lparr>fb_name = (case re_search fallback_name_pattern (take 500 text) of
                   Some g \<Rightarrow> py_strip g | None \<Rightarrow> []),
      fb_email = group_or_empty (re_search fallback_email_pattern text),
      fb_phone = group_or_empty (re_search fallback_phone_pattern text)\<rparr>"


section \<open>The AI extraction and the workflow (\<^verbatim>\<open>reference_checking_workflow.py\<close>)\<close>

text \<open>
  What the workflow consumes from outside the repository, one field for each call:
  the HTTP fetch (\<^verbatim>\<open>requests.get\<close> followed by \<^verbatim>\<open>raise_for_status\<close>, giving the
  body or the exception), the text extraction of the parser tool, the
  \<^verbatim>\<open>pdfplumber\<close> fallback (the text of each page, \<^verbatim>\<open>None\<close> for a page without
  text), the text splitter, the two calls of the language model (as functions of what
  is filled into the prompt template, giving \<^verbatim>\<open>result.content\<close>),
  \<^verbatim>\<open>json.loads\<close>, the formatted clock, \<^verbatim>\<open>os.makedirs\<close> and the question lookup
  (at its declared type \<^verbatim>\<open>List[str]\<close>). Each call returns or raises.
\<close>

record world =
  requests_get :: "string \<Rightarrow> exn + bytes"
  parse_file_content :: "bytes \<Rightarrow> string \<Rightarrow> exn + string"
  pdfplumber_pages :: "bytes \<Rightarrow> exn + string option list"
  split_text :: "string \<Rightarrow> exn + string list"
  llm_applicant :: "string \<Rightarrow> exn + string"
  llm_references :: "string \<Rightarrow> string \<Rightarrow> exn + string"
  json_loads :: "string \<Rightarrow> exn + pyval"
  now_stamp :: string
  os_makedirs :: "string \<Rightarrow> exn option"
  get_questions :: "string \<Rightarrow> string \<Rightarrow> exn + string list"

record WorkflowState =
  resume_url :: string
  role :: string
  organization :: string
  resume_text :: string
  resume_chunks :: "string list option"
  applicant_info :: pyval
  references :: pyval
  questions :: pyval
  vectorstore_path :: string
  error_message :: string
  status :: string

text \<open>\<^verbatim>\<open>s.find(c)\<close> and \<^verbatim>\<open>s.rfind(c)\<close>: the index, or -1.\<close>

fun py_find :: "char \<Rightarrow> string \<Rightarrow> int" where
  "py_find c [] = - 1"
| "py_find c (x # xs) =
     (if x = c then 0 else (let i = py_find c xs in if i < 0 then - 1 else i + 1))"

definition py_rfind :: "char \<Rightarrow> string \<Rightarrow> int" where
  "py_rfind c s = (let i = py_find c (rev s) in if i < 0 then - 1 else int (length s) - 1 - i)"

text \<open>\<^verbatim>\<open>s[i:j]\<close> for \<^verbatim>\<open>0 <= i\<close> and \<^verbatim>\<open>0 <= j\<close>.\<close>

definition py_slice :: "string \<Rightarrow> int \<Rightarrow> int \<Rightarrow> string" where
  "py_slice s i j = take (nat (j - i)) (drop (nat i) s)"

definition limited_text :: "string \<Rightarrow> string" where
  "limited_text text = (if length text > 3000 then take 3000 text @ ''...'' else text)"

definition default_applicant_info :: pyval where
  "default_applicant_info = PDict
     [(''full_name'', PStr ''Unknown''), (''email'', PStr ''Unknown''),
      (''phone'', PStr ''Unknown''), (''current_position'', PStr ''Unknown''),
      (''experience_years'', PStr ''Unknown''), (''key_skills'', PList [])]"

text \<open>\<^verbatim>\<open>_extract_applicant_info_direct\<close>, lines 270 to 318.\<close>

definition extract_applicant_info_try :: "world \<Rightarrow> string \<Rightarrow> exn + pyval" where
  "extract_applicant_info_try w text =
     (case llm_applicant w (limited_text text) of
        Inl e \<Rightarrow> Inl e
      | Inr result_content \<Rightarrow>
          (let content = py_strip result_content;
               start_idx = py_find CHR ''{'' content;
               end_idx = py_rfind CHR ''}'' content + 1
           in if start_idx \<ge> 0 \<and> end_idx > start_idx
              then json_loads w (py_slice content start_idx end_idx)
              else Inl (Exn ''Exception'' ''No JSON found in response'')))"

definition extract_applicant_info_direct :: "world \<Rightarrow> string \<Rightarrow> pyval" where
  "extract_applicant_info_direct w text =
     (case extract_applicant_info_try w text of
        Inr info \<Rightarrow> info
      | Inl e \<Rightarrow> default_applicant_info)"

text \<open>The dictionary literal of lines 370 to 377.\<close>

definition cleaned_reference :: "dict \<Rightarrow> dict" where
  "cleaned_reference ref =
     [(''name'', dict_get_default ref ''name'' (PStr ''Unknown'')),
      (''email'', dict_get_default ref ''email'' (PStr [])),
      (''company'', dict_get_default ref ''company'' (PStr [])),
      (''relationship'', dict_get_default ref ''relationship'' (PStr ''Professional contact'')),
      (''years_worked'', dict_get_default ref ''years_worked'' (PStr [])),
      (''context'', dict_get_default ref ''context'' (PStr []))]"

text \<open>
  The loop of lines 367 to 377: an item is kept when
  \<^verbatim>\<open>isinstance(ref, dict) and ref.get("name")\<close>.
\<close>

fun collect_valid :: "pyval list \<Rightarrow> pyval list" where
  "collect_valid [] = []"
| "collect_valid (PDict ref # refs) =
     (if truthy (dict_get ref ''name'')
      then PDict (cleaned_reference ref) # collect_valid refs
      else collect_valid refs)"
| "collect_valid (v # refs) = collect_valid refs"

text \<open>Lines 364 to 379 on the value that \<^verbatim>\<open>json.loads\<close> returned.\<close>

definition valid_references_of :: "pyval \<Rightarrow> exn + pyval list" where
  "valid_references_of references_json =
     (case py_iter references_json of
        Inl e \<Rightarrow> Inl e
      | Inr refs \<Rightarrow> Inr (collect_valid refs))"

definition no_reference_terms :: "string list" where
  "no_reference_terms = [''no references'', ''[]'', ''none'', ''not found'']"

text \<open>\<^verbatim>\<open>_extract_references_direct\<close>, lines 320 to 389.\<close>

definition extract_references_try :: "world \<Rightarrow> string \<Rightarrow> string \<Rightarrow> exn + pyval list" where
  "extract_references_try w text role_hint =
     (case llm_references w (limited_text text) role_hint of
        Inl e \<Rightarrow> Inl e
      | Inr result_content \<Rightarrow>
          (let content = py_strip result_content;
               start_idx = py_find CHR ''['' content;
               end_idx = py_rfind CHR '']'' content + 1
           in if start_idx \<ge> 0 \<and> end_idx > start_idx
              then (case json_loads w (py_slice content start_idx end_idx) of
                      Inl e \<Rightarrow> Inl e
                    | Inr references_json \<Rightarrow> valid_references_of references_json)
              else if list_ex (\<lambda>term. contains term (py_lower content)) no_reference_terms
              then Inr []
              else Inl (Exn ''Exception'' ''No valid JSON array found in response'')))"

definition extract_references_direct :: "world \<Rightarrow> string \<Rightarrow> string \<Rightarrow> pyval list" where
  "extract_references_direct w text role_hint =
     (case extract_references_try w text role_hint of
        Inr valid_references \<Rightarrow> valid_references
      | Inl e \<Rightarrow> [])"

subsection \<open>The nodes\<close>

text \<open>
  Each node is a \<^verbatim>\<open>try\<close> block and an \<^verbatim>\<open>except Exception\<close> handler. The block is a
  function into \<open>exn + WorkflowState\<close>; the node applies the handler to \<open>Inl\<close>.
  Where a block writes to the state before a statement that can raise, the handler
  overwrites the same keys, so the handler is applied to the state the node received.
\<close>

definition pdfplumber_text :: "string option list \<Rightarrow> string" where
  "pdfplumber_text pages =
     concat (map (\<lambda>page_text. case page_text of
                     None \<Rightarrow> []
                   | Some t \<Rightarrow> if t = [] then [] else t @ [CHR 0x0A]) pages)"

text \<open>Lines 101 to 115: the parser tool, and \<^verbatim>\<open>pdfplumber\<close> when the tool raises.\<close>

definition download_text :: "world \<Rightarrow> bytes \<Rightarrow> string \<Rightarrow> exn + string" where
  "download_text w content url =
     (case parse_file_content w content url of
        Inr text \<Rightarrow> Inr text
      | Inl parse_error \<Rightarrow>
          (case pdfplumber_pages w content of
             Inl e \<Rightarrow> Inl e
           | Inr pages \<Rightarrow> Inr (pdfplumber_text pages)))"

definition download_resume_try :: "world \<Rightarrow> WorkflowState \<Rightarrow> exn + WorkflowState" where
  "download_resume_try w state =
     (case requests_get w (resume_url state) of
        Inl e \<Rightarrow> Inl e
      | Inr content \<Rightarrow>
          (case download_text w content (resume_url state) of
             Inl e \<Rightarrow> Inl e
           | Inr text \<Rightarrow>
               if py_strip text = []
               then Inl (Exn ''Exception'' ''No text could be extracted from resume'')
               else Inr (state\<lparr>resume_text := text, status := ''downloaded''\<rparr>)))"

definition download_resume_node :: "world \<Rightarrow> WorkflowState \<Rightarrow> WorkflowState" where
  "download_resume_node w state =
     (case download_resume_try w state of
        Inr state' \<Rightarrow> state'
      | Inl e \<Rightarrow> state\<lparr>error_message := ''Failed to download resume: '' @ str_e e,
                       status := ''error''\<rparr>)"

definition parse_resume_try :: "world \<Rightarrow> WorkflowState \<Rightarrow> exn + WorkflowState" where
  "parse_resume_try w state =
     (if status state = ''error'' then Inr state
      else (case split_text w (resume_text state) of
              Inl e \<Rightarrow> Inl e
            | Inr chunks \<Rightarrow> Inr (state\<lparr>resume_chunks := Some chunks, status := ''parsed''\<rparr>)))"

definition parse_resume_node :: "world \<Rightarrow> WorkflowState \<Rightarrow> WorkflowState" where
  "parse_resume_node w state =
     (case parse_resume_try w state of
        Inr state' \<Rightarrow> state'
      | Inl e \<Rightarrow> state\<lparr>error_message := ''Failed to parse resume: '' @ str_e e,
                       status := ''error''\<rparr>)"

text \<open>
  Lines 158 to 166. The last statement formats
  \<^verbatim>\<open>applicant_info.get('full_name', 'Unknown')\<close>, which raises when the decoded JSON
  is not a dictionary.
\<close>

definition extract_applicant_try :: "world \<Rightarrow> WorkflowState \<Rightarrow> exn + WorkflowState" where
  "extract_applicant_try w state =
     (if status state = ''error'' then Inr state
      else (let info = extract_applicant_info_direct w (resume_text state) in
            case py_get info ''full_name'' of
              Inl e \<Rightarrow> Inl e
            | Inr full_name \<Rightarrow>
                Inr (state\<lparr>applicant_info := info, status := ''applicant_extracted''\<rparr>)))"

definition extract_applicant_node :: "world \<Rightarrow> WorkflowState \<Rightarrow> WorkflowState" where
  "extract_applicant_node w state =
     (case extract_applicant_try w state of
        Inr state' \<Rightarrow> state'
      | Inl e \<Rightarrow> state\<lparr>applicant_info := default_applicant_info,
                       status := ''applicant_extracted''\<rparr>)"

definition extract_references_node_try :: "world \<Rightarrow> WorkflowState \<Rightarrow> exn + WorkflowState" where
  "extract_references_node_try w state =
     (if status state = ''error'' then Inr state
      else Inr (state\<lparr>references :=
                        PList (extract_references_direct w (resume_text state) (role state)),
                      status := ''references_extracted''\<rparr>))"

definition extract_references_node :: "world \<Rightarrow> WorkflowState \<Rightarrow> WorkflowState" where
  "extract_references_node w state =
     (case extract_references_node_try w state of
        Inr state' \<Rightarrow> state'
      | Inl e \<Rightarrow> state\<lparr>references := PList [], status := ''references_extracted''\<rparr>)"

definition build_vectorstore_try :: "world \<Rightarrow> WorkflowState \<Rightarrow> exn + WorkflowState" where
  "build_vectorstore_try w state =
     (if status state = ''error'' then Inr state
      else (let path = ''./vectorstore/'' @ role state @ ''_'' @ organization state
                         @ ''_'' @ now_stamp w
            in case os_makedirs w path of
                 Some e \<Rightarrow> Inl e
               | None \<Rightarrow> Inr (state\<lparr>vectorstore_path := path,
                                     status := ''vectorstore_built''\<rparr>)))"

definition build_vectorstore_node :: "world \<Rightarrow> WorkflowState \<Rightarrow> WorkflowState" where
  "build_vectorstore_node w state =
     (case build_vectorstore_try w state of
        Inr state' \<Rightarrow> state'
      | Inl e \<Rightarrow> state\<lparr>vectorstore_path := [], status := ''vectorstore_built''\<rparr>)"

definition fetch_questions_try :: "world \<Rightarrow> WorkflowState \<Rightarrow> exn + WorkflowState" where
  "fetch_questions_try w state =
     (if status state = ''error'' then Inr state
      else (case get_questions w (role state) (organization state) of
              Inl e \<Rightarrow> Inl e
            | Inr qs \<Rightarrow> Inr (state\<lparr>questions := PList (map PStr qs),
                                  status := ''questions_fetched''\<rparr>)))"

definition fetch_questions_node :: "world \<Rightarrow> WorkflowState \<Rightarrow> WorkflowState" where
  "fetch_questions_node w state =
     (case fetch_questions_try w state of
        Inr state' \<Rightarrow> state'
      | Inl e \<Rightarrow> state\<lparr>questions := PList [], status := ''questions_fetched''\<rparr>)"

text \<open>
  Lines 257 to 262. Nothing in the block can raise, so the handler of lines 264 to
  266 has no branch here.
\<close>

definition finalize_node :: "WorkflowState \<Rightarrow> WorkflowState" where
  "finalize_node state =
     (if status state = ''error'' then state else state\<lparr>status := ''completed''\<rparr>)"

subsection \<open>The graph and the entry point\<close>

definition initial_state :: "string \<Rightarrow> string \<Rightarrow> string \<Rightarrow> WorkflowState" where
  "initial_state url role_hint org =
     \<lparr>resume_url = url, role = role_hint, organization = org, resume_text = [],
      resume_chunks = None, applicant_info = PDict [], references = PList [],
      questions = PList [], vectorstore_path = [], error_message = [],
      status = ''initialized''\<rparr>"

text \<open>The states of a run after each stage, along the edges of lines 80 to 86.\<close>

definition after_download :: "world \<Rightarrow> WorkflowState \<Rightarrow> WorkflowState" where
  "after_download w s0 = download_resume_node w s0"

definition after_parse :: "world \<Rightarrow> WorkflowState \<Rightarrow> WorkflowState" where
  "after_parse w s0 = parse_resume_node w (after_download w s0)"

definition after_applicant :: "world \<Rightarrow> WorkflowState \<Rightarrow> WorkflowState" where
  "after_applicant w s0 = extract_applicant_node w (after_parse w s0)"

definition after_references :: "world \<Rightarrow> WorkflowState \<Rightarrow> WorkflowState" where
  "after_references w s0 = extract_references_node w (after_applicant w s0)"

definition after_vectorstore :: "world \<Rightarrow> WorkflowState \<Rightarrow> WorkflowState" where
  "after_vectorstore w s0 = build_vectorstore_node w (after_references w s0)"

definition after_questions :: "world \<Rightarrow> WorkflowState \<Rightarrow> WorkflowState" where
  "after_questions w s0 = fetch_questions_node w (after_vectorstore w s0)"

definition ainvoke :: "world \<Rightarrow> WorkflowState \<Rightarrow> WorkflowState" where
  "ainvoke w s0 = finalize_node (after_questions w s0)"

text \<open>
  Lines 476 to 513. The block formats \<^verbatim>\<open>len(final_state.get('references', []))\<close>,
  which raises on a value without a length.
\<close>

definition run_workflow_try :: "world \<Rightarrow> string \<Rightarrow> string \<Rightarrow> string \<Rightarrow> exn + dict" where
  "run_workflow_try w url role_hint org =
     (let final_state = ainvoke w (initial_state url role_hint org) in
      case py_len (references final_state) of
        Inl e \<Rightarrow> Inl e
      | Inr n \<Rightarrow>
          Inr [(''applicant_info'', applicant_info final_state),
               (''references'', if \<not> truthy (references final_state) then PList []
                               else references final_state),
               (''questions'', questions final_state),
               (''vectorstore_path'', PStr (vectorstore_path final_state)),
               (''status'', PStr (status final_state)),
               (''error_message'', PStr (error_message final_state))])"

definition run_workflow :: "world \<Rightarrow> string \<Rightarrow> string \<Rightarrow> string \<Rightarrow> exn + dict" where
  "run_workflow w url role_hint org =
     (case run_workflow_try w url role_hint org of
        Inr result \<Rightarrow> Inr result
      | Inl e \<Rightarrow>
          Inr [(''applicant_info'', PDict []),
               (''references'', PList []),
               (''questions'', PList []),
               (''vectorstore_path'', PStr []),
               (''status'', PStr ''error''),
               (''error_message'', PStr (''Workflow execution failed: '' @ str_e e))])"

section \<open>The document text extractors\<close>

text \<open>
  The libraries behind both extractors: the page texts of \<^verbatim>\<open>PyPDF2\<close> (or the
  exception raised while reading), the opened \<^verbatim>\<open>docx\<close> document, the builtin
  decoding \<^verbatim>\<open>str(b, 'utf-8', errors='ignore')\<close>, and the file system.
\<close>

record docx_document =
  paragraphs :: "string list"
  tables :: "string list list list"

record doc_libs =
  pypdf2_pages :: "bytes \<Rightarrow> exn + string list"
  docx_open :: "bytes \<Rightarrow> exn + docx_document"
  utf8_ignore :: "bytes \<Rightarrow> string"
  open_rb :: "string \<Rightarrow> exn + bytes"

definition lines_text :: "string list \<Rightarrow> string" where
  "lines_text ts = concat (map (\<lambda>t. t @ [CHR 0x0A]) ts)"

subsection \<open>\<^verbatim>\<open>backend/parser.py\<close>\<close>

definition extract_text_from_pdf :: "doc_libs \<Rightarrow> bytes \<Rightarrow> string" where
  "extract_text_from_pdf libs file_content =
     (case pypdf2_pages libs file_content of
        Inr pages \<Rightarrow> py_strip (lines_text pages)
      | Inl e \<Rightarrow> [])"

definition extract_text_from_docx :: "doc_libs \<Rightarrow> bytes \<Rightarrow> string" where
  "extract_text_from_docx libs file_content =
     (case docx_open libs file_content of
        Inr doc \<Rightarrow> py_strip (lines_text (paragraphs doc))
      | Inl e \<Rightarrow> [])"

definition extract_text_from_file :: "doc_libs \<Rightarrow> bytes \<Rightarrow> string \<Rightarrow> exn + string" where
  "extract_text_from_file libs file_content file_extension =
     (if py_lower file_extension = ''.pdf''
      then Inr (extract_text_from_pdf libs file_content)
      else if py_lower file_extension \<in> set [''.docx'', ''.doc'']
      then Inr (extract_text_from_docx libs file_content)
      else Inr (utf8_ignore libs file_content))"

subsection \<open>\<^verbatim>\<open>agents/tools/resume_tools.py\<close>\<close>

definition ends_with :: "string \<Rightarrow> string \<Rightarrow> bool" where
  "ends_with suffix s = starts_with (rev suffix) (rev s)"

definition extract_pdf_text :: "doc_libs \<Rightarrow> bytes \<Rightarrow> string" where
  "extract_pdf_text libs file_content =
     (case pypdf2_pages libs file_content of
        Inr pages \<Rightarrow> py_strip (lines_text pages)
      | Inl e \<Rightarrow> ''Error reading PDF: '' @ str_e e)"

definition table_text :: "string list list \<Rightarrow> string" where
  "table_text rows = concat (map (\<lambda>cells. concat (map (\<lambda>cell. cell @ '' '') cells) @ [CHR 0x0A]) rows)"

definition extract_docx_text :: "doc_libs \<Rightarrow> bytes \<Rightarrow> string" where
  "extract_docx_text libs file_content =
     (case docx_open libs file_content of
        Inr doc \<Rightarrow> py_strip (lines_text (paragraphs doc) @ concat (map table_text (tables doc)))
      | Inl e \<Rightarrow> ''Error reading DOCX: '' @ str_e e)"

text \<open>\<^verbatim>\<open>parse_resume\<close> of \<^verbatim>\<open>create_resume_parser_tool\<close>, lines 123 to 135.\<close>

definition parse_resume_file_try :: "doc_libs \<Rightarrow> string \<Rightarrow> exn + string" where
  "parse_resume_file_try libs file_path =
     (case open_rb libs file_path of
        Inl e \<Rightarrow> Inl e
      | Inr file \<Rightarrow>
          (let filename = py_lower file_path in
           if ends_with ''.pdf'' filename then Inr (extract_pdf_text libs file)
           else if ends_with ''.docx'' filename \<or> ends_with ''.doc'' filename
           then Inr (extract_docx_text libs file)
           else Inr ''Unsupported file format''))"

definition parse_resume :: "doc_libs \<Rightarrow> string \<Rightarrow> exn + string" where
  "parse_resume libs file_path =
     (case parse_resume_file_try libs file_path of
        Inr text \<Rightarrow> Inr text
      | Inl e \<Rightarrow> Inr (''Error parsing file: '' @ str_e e))"

section \<open>The validation pass in the words of the specification\<close>

text \<open>
  The surviving entries: the parsed non-blank lines whose name is neither empty nor
  the sentinel. The summary counts them, those with an email, those with a phone
  number, and those with neither.
\<close>

definition spec_validated :: "string list \<Rightarrow> reference_record list" where
  "spec_validated lines =
     filter (\<lambda>r. ref_name r \<noteq> [] \<and> ref_name r \<noteq> ''Unknown Reference'')
       (map parse_reference_fields (filter (\<lambda>line. py_strip line \<noteq> []) lines))"

definition spec_summary :: "reference_record list \<Rightarrow> dict" where
  "spec_summary validated =
     [(''total_references'', PInt (int (length validated))),
      (''with_email'', PInt (int (length (filter (\<lambda>r. ref_email r \<noteq> []) validated)))),
      (''with_phone'', PInt (int (length (filter (\<lambda>r. ref_phone_number r \<noteq> []) validated)))),
      (''missing_info'',
         PInt (int (length validated)
               - int (length (filter (\<lambda>r. ref_email r \<noteq> [] \<or> ref_phone_number r \<noteq> [])
                                validated))))]"

section \<open>Bounds on what a pattern can match\<close>

text \<open>
  Two measures of a pattern, used to bound its matches from outside: no character class
  of the pattern accepts the character \<open>x\<close>; and a lower bound on the number of
  characters of the class \<open>D\<close> in every match (a class counts when it accepts
  characters of \<open>D\<close> only, an optional part counts for nothing).
\<close>

fun avoids :: "char \<Rightarrow> regex \<Rightarrow> bool" where
  "avoids x (Cls p) = (\<not> p x)"
| "avoids x (Seq a b) = (avoids x a \<and> avoids x b)"
| "avoids x (Alt a b) = (avoids x a \<and> avoids x b)"
| "avoids x (Opt a) = avoids x a"
| "avoids x (Rep p lo hi) = (\<not> p x)"
| "avoids x WordB = True"
| "avoids x Bol = True"
| "avoids x Eol = True"
| "avoids x Eps = True"

definition only_in :: "(char \<Rightarrow> bool) \<Rightarrow> (char \<Rightarrow> bool) \<Rightarrow> bool" where
  "only_in D p = (\<forall>c. p c \<longrightarrow> D c)"

fun min_count :: "(char \<Rightarrow> bool) \<Rightarrow> regex \<Rightarrow> nat" where
  "min_count D (Cls p) = (if only_in D p then 1 else 0)"
| "min_count D (Seq a b) = min_count D a + min_count D b"
| "min_count D (Alt a b) = min (min_count D a) (min_count D b)"
| "min_count D (Opt a) = 0"
| "min_count D (Rep p lo hi) = (if only_in D p then lo else 0)"
| "min_count D WordB = 0"
| "min_count D Bol = 0"
| "min_count D Eol = 0"
| "min_count D Eps = 0"

section \<open>Example environments\<close>

text \<open>An environment in which every outside call raises.\<close>

definition world_down :: world where
  "world_down =
     \<lparr>requests_get = (\<lambda>url. Inl (Exn ''ConnectionError'' ''connection refused'')),
      parse_file_content = (\<lambda>content filename. Inl (Exn ''OSError'' ''no space left on device'')),
      pdfplumber_pages = (\<lambda>content. Inl (Exn ''PDFSyntaxError'' ''No /Root object'')),
      split_text = (\<lambda>text. Inl (Exn ''ValueError'' ''bad chunk size'')),
      llm_applicant = (\<lambda>text. Inl (Exn ''APIConnectionError'' ''Connection error.'')),
      llm_references = (\<lambda>text role_hint. Inl (Exn ''APIConnectionError'' ''Connection error.'')),
      json_loads = (\<lambda>s. Inl (Exn ''JSONDecodeError'' ''Expecting value'')),
      now_stamp = ''20250801_120000'',
      os_makedirs = (\<lambda>path. Some (Exn ''PermissionError'' ''Permission denied'')),
      get_questions = (\<lambda>role_hint org. Inl (Exn ''TimeoutError'' ''timed out''))\<rparr>"

text \<open>
  The document is fetched and read and the splitter works; the model, the file system
  and the question lookup raise.
\<close>

definition world_llm_down :: world where
  "world_llm_down = world_down
     \<lparr>requests_get := (\<lambda>url. Inr [0x25, 0x50, 0x44, 0x46]),
      parse_file_content := (\<lambda>content filename. Inr ''Jane Roe 2020-2022 Acme''),
      split_text := (\<lambda>text. Inr [text])\<rparr>"



text \<open>On bytes below 128, decoding UTF-8 gives the characters of the same numbers.\<close>

definition ascii_text :: "bytes \<Rightarrow> string" where
  "ascii_text b = map (\<lambda>x. char_of (unat x)) b"

text \<open>Every file opens and holds the two bytes of \<^verbatim>\<open>hi\<close>; no reader accepts them.\<close>

definition example_libs :: doc_libs where
  "example_libs =
     \<lparr>pypdf2_pages = (\<lambda>content. Inl (Exn ''PdfReadError'' ''EOF marker not found'')),
      docx_open = (\<lambda>content. Inl (Exn ''BadZipFile'' ''File is not a zip file'')),
      utf8_ignore = ascii_text,
      open_rb = (\<lambda>path. Inr [0x68, 0x69])\<rparr>"

definition locked_libs :: doc_libs where
  "locked_libs = example_libs
     \<lparr>open_rb := (\<lambda>path. Inl (Exn ''PermissionError'' ''Permission denied''))\<rparr>"

section \<open>Properties\<close>

subsection \<open>Basic facts\<close>

lemma dict_get_Nil [simp]: "dict_get [] k = PNone"
  by (simp add: dict_get_def)

lemma dict_get_Cons [simp]: "dict_get ((k', v) # d) k = (if k' = k then v else dict_get d k)"
  by (simp add: dict_get_def)

subsection \<open>The reference string parser\<close>

text \<open>
  C6: parsing the line \<^verbatim>\<open>Jane Doe, Acme Corp, jane@acme.com, 555-123-4567\<close> gives the
  name \<^verbatim>\<open>Jane Doe\<close>, the company \<^verbatim>\<open>Acme Corp\<close>, the email \<^verbatim>\<open>jane@acme.com\<close> and
  the phone number \<^verbatim>\<open>555-123-4567\<close>; the relationship is empty.
\<close>

theorem parse_jane_doe:
  "parse_reference_data (PStr ''Jane Doe, Acme Corp, jane@acme.com, 555-123-4567'') =
     Inr [(''name'', PStr ''Jane Doe''), (''email'', PStr ''jane@acme.com''),
          (''phone_number'', PStr ''555-123-4567''), (''company'', PStr ''Acme Corp''),
          (''relationship'', PStr '''')]"
  by code_simp

subsection \<open>The merge of the AI result and the fallback\<close>




subsection \<open>The records of the AI reference extraction\<close>






subsection \<open>The reference string parser on every line\<close>

lemma parse_reference_data_str:
  "parse_reference_data (PStr s) = Inr (parsed_data (parse_reference_fields s))"
  by (simp add: parse_reference_data_def)



lemma parsed_data_get [simp]:
  "dict_get (parsed_data r) ''name'' = PStr (ref_name r)"
  "dict_get (parsed_data r) ''email'' = PStr (ref_email r)"
  "dict_get (parsed_data r) ''phone_number'' = PStr (ref_phone_number r)"
  by (simp_all add: parsed_data_def record_dict_def)



text \<open>
  Outside the lines: on a non-empty dictionary the slice in the handler raises, and the
  exception leaves the parser.
\<close>

lemma parse_reference_data_dict_raises:
  "parse_reference_data (PDict [(''name'', PStr ''Ann Lee'')])
     = Inl (Exn ''TypeError'' (''unhashable type: '' @ quoted ''slice''))"
  by (simp add: parse_reference_data_def parse_reference_except_def)

subsection \<open>The validation pass\<close>

lemma validate_loop_lines:
  "validate_loop (map PStr lines) acc = Inr (acc @ map parsed_data (spec_validated lines))"
proof (induction lines arbitrary: acc)
  case Nil
  then show ?case by (simp add: spec_validated_def)
next
  case (Cons line lines)
  show ?case
  proof (cases "py_strip line = []")
    case True
    then show ?thesis
      using Cons.IH [of acc] by (simp add: spec_validated_def)
  next
    case False
    then have ne: "line \<noteq> []"
      by (auto simp: py_strip_def)
    show ?thesis
      using False ne Cons.IH [of acc] Cons.IH [of "acc @ [parsed_data (parse_reference_fields line)]"]
      by (simp add: spec_validated_def parse_reference_data_str)
  qed
qed

lemma count_if_parsed:
  "count_if (\<lambda>ref. truthy (dict_get ref ''email'')) (map parsed_data v)
     = int (length (filter (\<lambda>r. ref_email r \<noteq> []) v))"
  "count_if (\<lambda>ref. truthy (dict_get ref ''phone_number'')) (map parsed_data v)
     = int (length (filter (\<lambda>r. ref_phone_number r \<noteq> []) v))"
  "count_if (\<lambda>ref. truthy (dict_get ref ''email'') \<or> truthy (dict_get ref ''phone_number''))
       (map parsed_data v)
     = int (length (filter (\<lambda>r. ref_email r \<noteq> [] \<or> ref_phone_number r \<noteq> []) v))"
  by (simp_all add: count_if_def filter_map o_def)

lemma validation_summary_parsed:
  "validation_summary (map parsed_data v) = PDict (spec_summary v)"
  by (simp add: validation_summary_def spec_summary_def count_if_parsed)

text \<open>
  C5: for a result whose \<^verbatim>\<open>references\<close> is a list of lines, the validation pass
  returns the result with \<^verbatim>\<open>validated_references\<close> set to the parsed non-blank
  lines whose name is neither empty nor \<^verbatim>\<open>Unknown Reference\<close>, and with
  \<^verbatim>\<open>validation_summary\<close> set to their number, the numbers of those with an email
  and with a phone number, and the number of those with neither; the total is the
  length of the validated list, and the empty list gives no validated reference and
  the all-zero summary.
\<close>

theorem validation_pass:
  assumes "map_of result ''references'' = Some (PList (map PStr lines))"
  shows "validate_extracted_data result =
           Inr (dict_set ''validation_summary'' (PDict (spec_summary (spec_validated lines)))
                  (dict_set ''validated_references''
                     (PList (map (\<lambda>r. PDict (parsed_data r)) (spec_validated lines))) result))
         \<and> dict_get (spec_summary (spec_validated lines)) ''total_references''
             = PInt (int (length (spec_validated lines)))
         \<and> (lines = [] \<longrightarrow> spec_validated lines = []
               \<and> PDict (spec_summary (spec_validated lines)) = zero_summary)"
proof -
  from assms have ne: "result \<noteq> []"
    by auto
  from assms have refs: "dict_get_default result ''references'' (PList []) = PList (map PStr lines)"
    by (simp add: dict_get_default_def)
  have main: "validate_extracted_data result =
           Inr (dict_set ''validation_summary'' (PDict (spec_summary (spec_validated lines)))
                  (dict_set ''validated_references''
                     (PList (map (\<lambda>r. PDict (parsed_data r)) (spec_validated lines))) result))"
  proof (cases "lines = []")
    case True
    then show ?thesis
      using ne refs
      by (simp add: validate_extracted_data_def spec_validated_def spec_summary_def zero_summary_def)
  next
    case False
    then show ?thesis
      using ne refs validate_loop_lines [of lines "[]"]
      by (simp add: validate_extracted_data_def validation_summary_parsed o_def)
  qed
  have total: "dict_get (spec_summary (spec_validated lines)) ''total_references''
             = PInt (int (length (spec_validated lines)))"
    by (simp add: spec_summary_def)
  have empty: "lines = [] \<longrightarrow> spec_validated lines = []
               \<and> PDict (spec_summary (spec_validated lines)) = zero_summary"
    by (simp add: spec_validated_def spec_summary_def zero_summary_def)
  from main total empty show ?thesis by blast
qed

text \<open>Three lines, of which one is blank and one has no name; and the empty list.\<close>

theorem validation_pass_witness:
  "validate_extracted_data
     [(''references'', PList (map PStr
        [''Jane Doe, Acme Corp, jane@acme.com, 555-123-4567'', ''   '', ''@@@'']))]
   = Inr [(''references'', PList (map PStr
            [''Jane Doe, Acme Corp, jane@acme.com, 555-123-4567'', ''   '', ''@@@''])),
          (''validated_references'',
             PList [PDict [(''name'', PStr ''Jane Doe''), (''email'', PStr ''jane@acme.com''),
                           (''phone_number'', PStr ''555-123-4567''),
                           (''company'', PStr ''Acme Corp''), (''relationship'', PStr '''')]]),
          (''validation_summary'',
             PDict [(''total_references'', PInt 1), (''with_email'', PInt 1),
                    (''with_phone'', PInt 1), (''missing_info'', PInt 0)])]
   \<and> validate_extracted_data [(''references'', PList (map PStr []))]
   = Inr [(''references'', PList (map PStr [])),
          (''validated_references'', PList []),
          (''validation_summary'',
             PDict [(''total_references'', PInt 0), (''with_email'', PInt 0),
                    (''with_phone'', PInt 0), (''missing_info'', PInt 0)])]"
proof -
  have h: "map_of [(''references'', PList (map PStr
        [''Jane Doe, Acme Corp, jane@acme.com, 555-123-4567'', ''   '', ''@@@'']))] ''references''
      = Some (PList (map PStr
        [''Jane Doe, Acme Corp, jane@acme.com, 555-123-4567'', ''   '', ''@@@'']))"
    by simp
  have v: "spec_validated [''Jane Doe, Acme Corp, jane@acme.com, 555-123-4567'', ''   '', ''@@@'']
      = [\<lparr>ref_name = ''Jane Doe'', ref_email = ''jane@acme.com'',
          ref_phone_number = ''555-123-4567'', ref_company = ''Acme Corp'',
          ref_relationship = ''''\<rparr>]"
    by code_simp
  have h0: "map_of [(''references'', PList (map PStr []))] ''references''
      = Some (PList (map PStr []))"
    by simp
  have v0: "spec_validated [] = []"
    by (simp add: spec_validated_def)
  have a: "validate_extracted_data
     [(''references'', PList (map PStr
        [''Jane Doe, Acme Corp, jane@acme.com, 555-123-4567'', ''   '', ''@@@'']))]
   = Inr [(''references'', PList (map PStr
            [''Jane Doe, Acme Corp, jane@acme.com, 555-123-4567'', ''   '', ''@@@''])),
          (''validated_references'',
             PList [PDict [(''name'', PStr ''Jane Doe''), (''email'', PStr ''jane@acme.com''),
                           (''phone_number'', PStr ''555-123-4567''),
                           (''company'', PStr ''Acme Corp''), (''relationship'', PStr '''')]]),
          (''validation_summary'',
             PDict [(''total_references'', PInt 1), (''with_email'', PInt 1),
                    (''with_phone'', PInt 1), (''missing_info'', PInt 0)])]"
    using validation_pass [OF h] unfolding v
    by (simp add: spec_summary_def parsed_data_def record_dict_def)
  have b: "validate_extracted_data [(''references'', PList (map PStr []))]
   = Inr [(''references'', PList (map PStr [])),
          (''validated_references'', PList []),
          (''validation_summary'',
             PDict [(''total_references'', PInt 0), (''with_email'', PInt 0),
                    (''with_phone'', PInt 0), (''missing_info'', PInt 0)])]"
    using validation_pass [OF h0] unfolding v0
    by (simp add: spec_summary_def)
  from a b show ?thesis by blast
qed

subsection \<open>The document text extractors\<close>

text \<open>
  C9, as the code has it: neither extractor raises. \<^verbatim>\<open>extract_text_from_file\<close> of
  \<^verbatim>\<open>backend/parser.py\<close> returns the bytes decoded as UTF-8 with invalid sequences
  dropped for an extension other than .pdf, .docx and .doc, and the empty string when
  the PDF or DOCX reader fails. \<^verbatim>\<open>parse_resume\<close> of the parser tool in
  \<^verbatim>\<open>agents/tools/resume_tools.py\<close> returns a message instead: \<^verbatim>\<open>Unsupported file format\<close>
  for a file name that ends in none of the three extensions, and \<^verbatim>\<open>Error reading PDF: \<close>,
  \<^verbatim>\<open>Error reading DOCX: \<close> or \<^verbatim>\<open>Error parsing file: \<close> followed by the
  exception's message when the PDF reader, the DOCX reader or the opening of the file
  fails.
\<close>

theorem text_extractors:
  "(\<exists>t. extract_text_from_file libs content ext = Inr t)
   \<and> (py_lower ext \<noteq> ''.pdf'' \<and> py_lower ext \<noteq> ''.docx'' \<and> py_lower ext \<noteq> ''.doc''
        \<longrightarrow> extract_text_from_file libs content ext = Inr (utf8_ignore libs content))
   \<and> (py_lower ext = ''.pdf'' \<and> pypdf2_pages libs content = Inl e
        \<longrightarrow> extract_text_from_file libs content ext = Inr '''')
   \<and> ((py_lower ext = ''.docx'' \<or> py_lower ext = ''.doc'') \<and> docx_open libs content = Inl e
        \<longrightarrow> extract_text_from_file libs content ext = Inr '''')
   \<and> (\<exists>t. parse_resume libs path = Inr t)
   \<and> (open_rb libs path = Inl e
        \<longrightarrow> parse_resume libs path = Inr (''Error parsing file: '' @ str_e e))
   \<and> (open_rb libs path = Inr content
        \<and> \<not> ends_with ''.pdf'' (py_lower path) \<and> \<not> ends_with ''.docx'' (py_lower path)
        \<and> \<not> ends_with ''.doc'' (py_lower path)
        \<longrightarrow> parse_resume libs path = Inr ''Unsupported file format'')
   \<and> (open_rb libs path = Inr content \<and> ends_with ''.pdf'' (py_lower path)
        \<and> pypdf2_pages libs content = Inl e
        \<longrightarrow> parse_resume libs path = Inr (''Error reading PDF: '' @ str_e e))
   \<and> (open_rb libs path = Inr content \<and> \<not> ends_with ''.pdf'' (py_lower path)
        \<and> (ends_with ''.docx'' (py_lower path) \<or> ends_with ''.doc'' (py_lower path))
        \<and> docx_open libs content = Inl e
        \<longrightarrow> parse_resume libs path = Inr (''Error reading DOCX: '' @ str_e e))"
proof -
  have backend: "\<exists>t. extract_text_from_file libs content ext = Inr t"
    by (simp add: extract_text_from_file_def)
  have other: "py_lower ext \<noteq> ''.pdf'' \<and> py_lower ext \<noteq> ''.docx'' \<and> py_lower ext \<noteq> ''.doc''
        \<longrightarrow> extract_text_from_file libs content ext = Inr (utf8_ignore libs content)"
    by (simp add: extract_text_from_file_def)
  have pdf: "py_lower ext = ''.pdf'' \<and> pypdf2_pages libs content = Inl e
        \<longrightarrow> extract_text_from_file libs content ext = Inr ''''"
    by (simp add: extract_text_from_file_def extract_text_from_pdf_def)
  have docx: "(py_lower ext = ''.docx'' \<or> py_lower ext = ''.doc'') \<and> docx_open libs content = Inl e
        \<longrightarrow> extract_text_from_file libs content ext = Inr ''''"
    by (auto simp: extract_text_from_file_def extract_text_from_docx_def)
  have tool: "\<exists>t. parse_resume libs path = Inr t"
    by (simp add: parse_resume_def split: sum.splits)
  have opened: "open_rb libs path = Inl e
        \<longrightarrow> parse_resume libs path = Inr (''Error parsing file: '' @ str_e e)"
    by (simp add: parse_resume_def parse_resume_file_try_def)
  have unsupported: "open_rb libs path = Inr content
        \<and> \<not> ends_with ''.pdf'' (py_lower path) \<and> \<not> ends_with ''.docx'' (py_lower path)
        \<and> \<not> ends_with ''.doc'' (py_lower path)
        \<longrightarrow> parse_resume libs path = Inr ''Unsupported file format''"
    by (simp add: parse_resume_def parse_resume_file_try_def)
  have tool_pdf: "open_rb libs path = Inr content \<and> ends_with ''.pdf'' (py_lower path)
        \<and> pypdf2_pages libs content = Inl e
        \<longrightarrow> parse_resume libs path = Inr (''Error reading PDF: '' @ str_e e)"
    by (simp add: parse_resume_def parse_resume_file_try_def extract_pdf_text_def)
  have tool_docx: "open_rb libs path = Inr content \<and> \<not> ends_with ''.pdf'' (py_lower path)
        \<and> (ends_with ''.docx'' (py_lower path) \<or> ends_with ''.doc'' (py_lower path))
        \<and> docx_open libs content = Inl e
        \<longrightarrow> parse_resume libs path = Inr (''Error reading DOCX: '' @ str_e e)"
    by (auto simp: parse_resume_def parse_resume_file_try_def extract_docx_text_def)
  from backend other pdf docx tool opened unsupported tool_pdf tool_docx show ?thesis
    by blast
qed

text \<open>
  Both extractors on the two bytes of \<^verbatim>\<open>hi\<close>, under a text, a PDF and a DOCX name,
  with readers that reject them, and the tool on a file that does not open.
\<close>

theorem text_extractors_witness:
  "extract_text_from_file example_libs [0x68, 0x69] ''.txt'' = Inr ''hi''
   \<and> extract_text_from_file example_libs [0x68, 0x69] ''.PDF'' = Inr ''''
   \<and> extract_text_from_file example_libs [0x68, 0x69] ''.doc'' = Inr ''''
   \<and> parse_resume locked_libs ''cv.pdf'' = Inr ''Error parsing file: Permission denied''
   \<and> parse_resume example_libs ''cv.txt'' = Inr ''Unsupported file format''
   \<and> parse_resume example_libs ''CV.PDF'' = Inr ''Error reading PDF: EOF marker not found''
   \<and> parse_resume example_libs ''cv.docx'' = Inr ''Error reading DOCX: File is not a zip file''"
proof -
  have low_t: "py_lower ''.txt'' = ''.txt''" and low_p: "py_lower ''.PDF'' = ''.pdf''"
    and low_d: "py_lower ''.doc'' = ''.doc''"
    by code_simp+
  have hi: "utf8_ignore example_libs [0x68, 0x69] = ''hi''"
    by code_simp
  have readers: "pypdf2_pages example_libs [0x68, 0x69] = Inl (Exn ''PdfReadError'' ''EOF marker not found'')"
    "docx_open example_libs [0x68, 0x69] = Inl (Exn ''BadZipFile'' ''File is not a zip file'')"
    by (simp_all add: example_libs_def)
  have opens: "open_rb example_libs ''cv.txt'' = Inr [0x68, 0x69]"
    "open_rb example_libs ''CV.PDF'' = Inr [0x68, 0x69]"
    "open_rb example_libs ''cv.docx'' = Inr [0x68, 0x69]"
    "open_rb locked_libs ''cv.pdf'' = Inl (Exn ''PermissionError'' ''Permission denied'')"
    by (simp_all add: example_libs_def locked_libs_def)
  have ends: "\<not> ends_with ''.pdf'' (py_lower ''cv.txt'')" "\<not> ends_with ''.docx'' (py_lower ''cv.txt'')"
    "\<not> ends_with ''.doc'' (py_lower ''cv.txt'')" "ends_with ''.pdf'' (py_lower ''CV.PDF'')"
    "\<not> ends_with ''.pdf'' (py_lower ''cv.docx'')" "ends_with ''.docx'' (py_lower ''cv.docx'')"
    by code_simp+
  have a: "extract_text_from_file example_libs [0x68, 0x69] ''.txt'' = Inr ''hi''"
    using text_extractors [of example_libs "[0x68, 0x69]" "''.txt''"] low_t hi by simp
  have b: "extract_text_from_file example_libs [0x68, 0x69] ''.PDF'' = Inr ''''"
    using text_extractors [of example_libs "[0x68, 0x69]" "''.PDF''"
        "Exn ''PdfReadError'' ''EOF marker not found''"] low_p readers by simp
  have c: "extract_text_from_file example_libs [0x68, 0x69] ''.doc'' = Inr ''''"
    using text_extractors [of example_libs "[0x68, 0x69]" "''.doc''"
        "Exn ''BadZipFile'' ''File is not a zip file''"] low_d readers by simp
  have d: "parse_resume locked_libs ''cv.pdf'' = Inr ''Error parsing file: Permission denied''"
    using text_extractors [of locked_libs _ _ "Exn ''PermissionError'' ''Permission denied''" "''cv.pdf''"]
      opens by simp
  have e: "parse_resume example_libs ''cv.txt'' = Inr ''Unsupported file format''"
    using text_extractors [of example_libs "[0x68, 0x69]" _ _ "''cv.txt''"] opens ends by simp
  have f: "parse_resume example_libs ''CV.PDF'' = Inr ''Error reading PDF: EOF marker not found''"
    using text_extractors [of example_libs "[0x68, 0x69]" _
        "Exn ''PdfReadError'' ''EOF marker not found''" "''CV.PDF''"] opens ends readers by simp
  have g: "parse_resume example_libs ''cv.docx'' = Inr ''Error reading DOCX: File is not a zip file''"
    using text_extractors [of example_libs "[0x68, 0x69]" _
        "Exn ''BadZipFile'' ''File is not a zip file''" "''cv.docx''"] opens ends readers by simp
  from a b c d e f g show ?thesis by blast
qed

text \<open>
  The parser tool on a text file that holds \<^verbatim>\<open>hi\<close> and on a PDF that cannot be
  read: it returns neither the decoded bytes nor the empty string.
\<close>

theorem tool_parser_counterexample:
  "open_rb example_libs ''cv.txt'' = Inr [0x68, 0x69]
   \<and> utf8_ignore example_libs [0x68, 0x69] = ''hi''
   \<and> parse_resume example_libs ''cv.txt'' = Inr ''Unsupported file format''
   \<and> parse_resume example_libs ''cv.pdf'' = Inr ''Error reading PDF: EOF marker not found''"
  by code_simp

subsection \<open>The workflow\<close>

lemma node_on_error [simp]:
  "status s = ''error'' \<Longrightarrow> parse_resume_node w s = s"
  "status s = ''error'' \<Longrightarrow> extract_applicant_node w s = s"
  "status s = ''error'' \<Longrightarrow> extract_references_node w s = s"
  "status s = ''error'' \<Longrightarrow> build_vectorstore_node w s = s"
  "status s = ''error'' \<Longrightarrow> fetch_questions_node w s = s"
  "status s = ''error'' \<Longrightarrow> finalize_node s = s"
  by (simp_all add: parse_resume_node_def parse_resume_try_def extract_applicant_node_def
        extract_applicant_try_def extract_references_node_def extract_references_node_try_def
        build_vectorstore_node_def build_vectorstore_try_def fetch_questions_node_def
        fetch_questions_try_def finalize_node_def)

lemma ainvoke_nodes:
  "ainvoke w s0 =
     finalize_node (fetch_questions_node w (build_vectorstore_node w
       (extract_references_node w (extract_applicant_node w
          (parse_resume_node w (download_resume_node w s0))))))"
  by (simp add: ainvoke_def after_questions_def after_vectorstore_def after_references_def
        after_applicant_def after_parse_def after_download_def)

lemma download_failed:
  "download_resume_try w s = Inl e \<Longrightarrow>
     download_resume_node w s
       = s\<lparr>error_message := ''Failed to download resume: '' @ str_e e, status := ''error''\<rparr>"
  by (simp add: download_resume_node_def)

lemma download_succeeded:
  "download_resume_try w s = Inr s1 \<Longrightarrow>
     download_resume_node w s = s1
       \<and> (\<exists>text. s1 = s\<lparr>resume_text := text, status := ''downloaded''\<rparr>)"
  by (auto simp: download_resume_node_def download_resume_try_def split: sum.splits if_splits)

lemma ainvoke_download_failed:
  "download_resume_try w s = Inl e \<Longrightarrow>
     ainvoke w s
       = s\<lparr>error_message := ''Failed to download resume: '' @ str_e e, status := ''error''\<rparr>"
  by (simp add: ainvoke_nodes download_failed)

lemma parse_failed:
  "status s \<noteq> ''error'' \<Longrightarrow> split_text w (resume_text s) = Inl e \<Longrightarrow>
     parse_resume_node w s
       = s\<lparr>error_message := ''Failed to parse resume: '' @ str_e e, status := ''error''\<rparr>"
  by (simp add: parse_resume_node_def parse_resume_try_def)

lemma parse_succeeded:
  "status s \<noteq> ''error'' \<Longrightarrow> split_text w (resume_text s) = Inr chunks \<Longrightarrow>
     parse_resume_node w s = s\<lparr>resume_chunks := Some chunks, status := ''parsed''\<rparr>"
  by (simp add: parse_resume_node_def parse_resume_try_def)

lemma extract_applicant_ok:
  "status s \<noteq> ''error'' \<Longrightarrow>
     extract_applicant_node w s
       = s\<lparr>applicant_info :=
             (case py_get (extract_applicant_info_direct w (resume_text s)) ''full_name'' of
                Inl e \<Rightarrow> default_applicant_info
              | Inr n \<Rightarrow> extract_applicant_info_direct w (resume_text s)),
           status := ''applicant_extracted''\<rparr>"
  by (simp add: extract_applicant_node_def extract_applicant_try_def Let_def split: sum.splits)

lemma extract_references_ok:
  "status s \<noteq> ''error'' \<Longrightarrow>
     extract_references_node w s
       = s\<lparr>references := PList (extract_references_direct w (resume_text s) (role s)),
           status := ''references_extracted''\<rparr>"
  by (simp add: extract_references_node_def extract_references_node_try_def)

lemma build_vectorstore_ok:
  "status s \<noteq> ''error'' \<Longrightarrow>
     build_vectorstore_node w s
       = s\<lparr>vectorstore_path :=
             (case os_makedirs w (''./vectorstore/'' @ role s @ ''_'' @ organization s
                                    @ ''_'' @ now_stamp w) of
                Some e \<Rightarrow> []
              | None \<Rightarrow> ''./vectorstore/'' @ role s @ ''_'' @ organization s
                          @ ''_'' @ now_stamp w),
           status := ''vectorstore_built''\<rparr>"
  by (simp add: build_vectorstore_node_def build_vectorstore_try_def Let_def split: option.splits)

lemma fetch_questions_ok:
  "status s \<noteq> ''error'' \<Longrightarrow>
     fetch_questions_node w s
       = s\<lparr>questions :=
             (case get_questions w (role s) (organization s) of
                Inl e \<Rightarrow> PList []
              | Inr qs \<Rightarrow> PList (map PStr qs)),
           status := ''questions_fetched''\<rparr>"
  by (simp add: fetch_questions_node_def fetch_questions_try_def split: sum.splits)

lemma finalize_ok:
  "status s \<noteq> ''error'' \<Longrightarrow> finalize_node s = s\<lparr>status := ''completed''\<rparr>"
  by (simp add: finalize_node_def)

lemma direct_defaults:
  "llm_applicant w (limited_text text) = Inl e \<Longrightarrow>
     extract_applicant_info_direct w text = default_applicant_info"
  "llm_references w (limited_text text) role_hint = Inl e \<Longrightarrow>
     extract_references_direct w text role_hint = []"
  by (simp_all add: extract_applicant_info_direct_def extract_applicant_info_try_def
        extract_references_direct_def extract_references_try_def)

lemma run_workflow_of_state:
  "references (ainvoke w (initial_state url role_hint org)) = PList refs \<Longrightarrow>
     run_workflow w url role_hint org =
       Inr [(''applicant_info'', applicant_info (ainvoke w (initial_state url role_hint org))),
            (''references'', PList refs),
            (''questions'', questions (ainvoke w (initial_state url role_hint org))),
            (''vectorstore_path'', PStr (vectorstore_path (ainvoke w (initial_state url role_hint org)))),
            (''status'', PStr (status (ainvoke w (initial_state url role_hint org)))),
            (''error_message'', PStr (error_message (ainvoke w (initial_state url role_hint org))))]"
  by (simp add: run_workflow_def run_workflow_try_def Let_def)

lemma ainvoke_completed:
  assumes "download_resume_try w s = Inr s1" and "split_text w (resume_text s1) = Inr chunks"
  shows "ainvoke w s =
     s\<lparr>resume_text := resume_text s1,
       resume_chunks := Some chunks,
       applicant_info :=
         (case py_get (extract_applicant_info_direct w (resume_text s1)) ''full_name'' of
            Inl e \<Rightarrow> default_applicant_info
          | Inr n \<Rightarrow> extract_applicant_info_direct w (resume_text s1)),
       references := PList (extract_references_direct w (resume_text s1) (role s)),
       questions :=
         (case get_questions w (role s) (organization s) of
            Inl e \<Rightarrow> PList []
          | Inr qs \<Rightarrow> PList (map PStr qs)),
       vectorstore_path :=
         (case os_makedirs w (''./vectorstore/'' @ role s @ ''_'' @ organization s
                                @ ''_'' @ now_stamp w) of
            Some e \<Rightarrow> []
          | None \<Rightarrow> ''./vectorstore/'' @ role s @ ''_'' @ organization s @ ''_'' @ now_stamp w),
       status := ''completed''\<rparr>"
proof -
  from download_succeeded [OF assms(1)]
  obtain t where d: "download_resume_node w s = s1"
    and s1: "s1 = s\<lparr>resume_text := t, status := ''downloaded''\<rparr>"
    by blast
  have p: "parse_resume_node w s1 = s1\<lparr>resume_chunks := Some chunks, status := ''parsed''\<rparr>"
    using parse_succeeded [OF _ assms(2)] s1 by simp
  show ?thesis
    unfolding ainvoke_nodes d p
    by (simp add: s1 extract_applicant_ok extract_references_ok build_vectorstore_ok
          fetch_questions_ok finalize_ok cong: sum.case_cong option.case_cong)
qed

lemma after_applicant_reached:
  assumes "status (after_applicant w s) \<noteq> ''error''"
  shows "\<exists>s1 chunks. download_resume_try w s = Inr s1
           \<and> split_text w (resume_text s1) = Inr chunks
           \<and> resume_text (after_applicant w s) = resume_text s1
           \<and> role (after_applicant w s) = role s"
proof (cases "download_resume_try w s")
  case (Inl e)
  then have "status (after_applicant w s) = ''error''"
    by (simp add: after_applicant_def after_parse_def after_download_def download_failed)
  with assms show ?thesis by simp
next
  case (Inr s1)
  from download_succeeded [OF Inr]
  obtain t where d: "download_resume_node w s = s1"
    and s1: "s1 = s\<lparr>resume_text := t, status := ''downloaded''\<rparr>"
    by blast
  show ?thesis
  proof (cases "split_text w (resume_text s1)")
    case (Inl e)
    then have "status (after_applicant w s) = ''error''"
      using parse_failed [of s1 w e] s1
      by (simp add: after_applicant_def after_parse_def after_download_def d)
    with assms show ?thesis by simp
  next
    case split: (Inr chunks)
    have "parse_resume_node w s1 = s1\<lparr>resume_chunks := Some chunks, status := ''parsed''\<rparr>"
      using parse_succeeded [OF _ split] s1 by simp
    then have "resume_text (after_applicant w s) = resume_text s1
        \<and> role (after_applicant w s) = role s"
      by (simp add: after_applicant_def after_parse_def after_download_def d
            extract_applicant_ok s1)
    with Inr split show ?thesis by blast
  qed
qed



lemma run_download_failed:
  assumes "download_resume_try w (initial_state url role_hint org) = Inl e"
  shows "run_workflow w url role_hint org =
        Inr [(''applicant_info'', PDict []), (''references'', PList []), (''questions'', PList []),
             (''vectorstore_path'', PStr ''''), (''status'', PStr ''error''),
             (''error_message'', PStr (''Failed to download resume: '' @ str_e e))]"
  using ainvoke_download_failed [OF assms]
  by (subst run_workflow_of_state [of _ _ _ _ "[]"]) (simp_all add: initial_state_def)


lemma run_completed:
  assumes a: "download_resume_try w (initial_state url role_hint org) = Inr s1"
    and b: "split_text w (resume_text s1) = Inr chunks"
  shows "run_workflow w url role_hint org =
        Inr [(''applicant_info'',
                case py_get (extract_applicant_info_direct w (resume_text s1)) ''full_name'' of
                  Inl e \<Rightarrow> default_applicant_info
                | Inr n \<Rightarrow> extract_applicant_info_direct w (resume_text s1)),
             (''references'', PList (extract_references_direct w (resume_text s1) role_hint)),
             (''questions'',
                case get_questions w role_hint org of
                  Inl e \<Rightarrow> PList []
                | Inr qs \<Rightarrow> PList (map PStr qs)),
             (''vectorstore_path'',
                PStr (case os_makedirs w
                             (''./vectorstore/'' @ role_hint @ ''_'' @ org @ ''_'' @ now_stamp w) of
                        Some e \<Rightarrow> []
                      | None \<Rightarrow> ''./vectorstore/'' @ role_hint @ ''_'' @ org @ ''_'' @ now_stamp w)),
             (''status'', PStr ''completed''),
             (''error_message'', PStr '''')]"
proof -
  note c = ainvoke_completed [OF a b]
  have f: "role (initial_state url role_hint org) = role_hint"
    "organization (initial_state url role_hint org) = org"
    by (simp_all add: initial_state_def)
  show ?thesis
    by (subst run_workflow_of_state
          [of _ _ _ _ "extract_references_direct w (resume_text s1) role_hint"])
       (simp_all add: c f cong: sum.case_cong option.case_cong,
        simp_all add: initial_state_def)
qed




text \<open>
  C3: a run whose document fetch raises ends with the status error, no references, no
  questions and a non-empty error message. A run in which the reference call of the
  language model is made (the stage before it ended without the error status) and
  raises passes the stage with the status references_extracted and ends with the status
  completed, no references and an empty error message.
\<close>

theorem fetch_and_llm_failures:
  "(requests_get w url = Inl e \<longrightarrow>
      run_workflow w url role_hint org =
        Inr [(''applicant_info'', PDict []), (''references'', PList []), (''questions'', PList []),
             (''vectorstore_path'', PStr ''''), (''status'', PStr ''error''),
             (''error_message'', PStr (''Failed to download resume: '' @ str_e e))]
      \<and> ''Failed to download resume: '' @ str_e e \<noteq> [])
   \<and> (status (after_applicant w (initial_state url role_hint org)) \<noteq> ''error''
        \<and> llm_references w
             (limited_text (resume_text (after_applicant w (initial_state url role_hint org))))
             role_hint = Inl e \<longrightarrow>
      status (after_references w (initial_state url role_hint org)) = ''references_extracted''
      \<and> (\<exists>r. run_workflow w url role_hint org = Inr r
             \<and> dict_get r ''status'' = PStr ''completed''
             \<and> dict_get r ''references'' = PList []
             \<and> dict_get r ''error_message'' = PStr ''''))"
proof (intro conjI impI)
  assume "requests_get w url = Inl e"
  then have "download_resume_try w (initial_state url role_hint org) = Inl e"
    by (simp add: download_resume_try_def initial_state_def)
  then show "run_workflow w url role_hint org =
        Inr [(''applicant_info'', PDict []), (''references'', PList []), (''questions'', PList []),
             (''vectorstore_path'', PStr ''''), (''status'', PStr ''error''),
             (''error_message'', PStr (''Failed to download resume: '' @ str_e e))]"
    by (rule run_download_failed)
next
  show "''Failed to download resume: '' @ str_e e \<noteq> []"
    by simp
next
  assume h: "status (after_applicant w (initial_state url role_hint org)) \<noteq> ''error''
        \<and> llm_references w
             (limited_text (resume_text (after_applicant w (initial_state url role_hint org))))
             role_hint = Inl e"
  then show "status (after_references w (initial_state url role_hint org)) = ''references_extracted''"
    by (simp add: after_references_def extract_references_ok)
next
  assume h: "status (after_applicant w (initial_state url role_hint org)) \<noteq> ''error''
        \<and> llm_references w
             (limited_text (resume_text (after_applicant w (initial_state url role_hint org))))
             role_hint = Inl e"
  from after_applicant_reached [of w "initial_state url role_hint org"] h
  obtain s1 chunks where a: "download_resume_try w (initial_state url role_hint org) = Inr s1"
    and b: "split_text w (resume_text s1) = Inr chunks"
    and c: "resume_text (after_applicant w (initial_state url role_hint org)) = resume_text s1"
    by blast
  from h c have "extract_references_direct w (resume_text s1) role_hint = []"
    by (simp add: direct_defaults)
  with run_completed [OF a b]
  show "\<exists>r. run_workflow w url role_hint org = Inr r
             \<and> dict_get r ''status'' = PStr ''completed''
             \<and> dict_get r ''references'' = PList []
             \<and> dict_get r ''error_message'' = PStr ''''"
    by simp
qed

text \<open>The run in which the fetch raises, and the run in which only the later calls raise.\<close>

theorem fetch_and_llm_failures_witness:
  "run_workflow world_down ''https://files.example/cv.pdf'' ''Nurse'' ''Camden'' =
     Inr [(''applicant_info'', PDict []), (''references'', PList []), (''questions'', PList []),
          (''vectorstore_path'', PStr ''''), (''status'', PStr ''error''),
          (''error_message'', PStr ''Failed to download resume: connection refused'')]
   \<and> status (after_references world_llm_down
        (initial_state ''https://files.example/cv.pdf'' ''Nurse'' ''Camden'')) = ''references_extracted''
   \<and> (\<exists>r. run_workflow world_llm_down ''https://files.example/cv.pdf'' ''Nurse'' ''Camden'' = Inr r
         \<and> dict_get r ''status'' = PStr ''completed''
         \<and> dict_get r ''references'' = PList []
         \<and> dict_get r ''error_message'' = PStr '''')"
proof -
  let ?s0 = "initial_state ''https://files.example/cv.pdf'' ''Nurse'' ''Camden''"
  have g: "requests_get world_down ''https://files.example/cv.pdf''
      = Inl (Exn ''ConnectionError'' ''connection refused'')"
    by (simp add: world_down_def)
  have reached: "status (after_applicant world_llm_down ?s0) \<noteq> ''error''"
    by code_simp
  have failed: "llm_references world_llm_down
      (limited_text (resume_text (after_applicant world_llm_down ?s0))) ''Nurse''
      = Inl (Exn ''APIConnectionError'' ''Connection error.'')"
    by (simp add: world_llm_down_def world_down_def)
  from fetch_and_llm_failures [of world_down "''https://files.example/cv.pdf''"
      "Exn ''ConnectionError'' ''connection refused''" "''Nurse''" "''Camden''"] g
  have a: "run_workflow world_down ''https://files.example/cv.pdf'' ''Nurse'' ''Camden'' =
     Inr [(''applicant_info'', PDict []), (''references'', PList []), (''questions'', PList []),
          (''vectorstore_path'', PStr ''''), (''status'', PStr ''error''),
          (''error_message'', PStr ''Failed to download resume: connection refused'')]"
    by simp
  from fetch_and_llm_failures [of world_llm_down "''https://files.example/cv.pdf''"
      "Exn ''APIConnectionError'' ''Connection error.''" "''Nurse''" "''Camden''"] reached failed
  have b: "status (after_references world_llm_down ?s0) = ''references_extracted''
   \<and> (\<exists>r. run_workflow world_llm_down ''https://files.example/cv.pdf'' ''Nurse'' ''Camden'' = Inr r
         \<and> dict_get r ''status'' = PStr ''completed''
         \<and> dict_get r ''references'' = PList []
         \<and> dict_get r ''error_message'' = PStr '''')"
    by blast
  from a b show ?thesis by blast
qed

subsection \<open>The fallback phone pattern\<close>

lemma rep_match_sound:
  "rep_match p lo hi prev s k = Some x \<Longrightarrow>
     \<exists>u s' prev'. s = u @ s' \<and> list_all p u \<and> lo \<le> length u \<and> k prev' s' = Some x"
proof (induction s arbitrary: lo hi prev)
  case Nil
  then show ?case
    by (auto split: if_splits)
next
  case (Cons c cs)
  show ?case
  proof (cases "p c \<and> hi \<noteq> Some 0")
    case True
    show ?thesis
    proof (cases "rep_match p (lo - 1) (map_option (\<lambda>h. h - 1) hi) (Some c) cs k")
      case None
      with Cons.prems True have "lo = 0" "k prev (c # cs) = Some x"
        by (auto split: if_splits)
      then show ?thesis
        by (intro exI [of _ "[]"] exI [of _ "c # cs"] exI [of _ prev]) simp
    next
      case (Some r)
      with Cons.prems True have "r = x"
        by simp
      with Some Cons.IH obtain u s' prev' where
        "cs = u @ s'" "list_all p u" "lo - 1 \<le> length u" "k prev' s' = Some x"
        by blast
      with True show ?thesis
        by (intro exI [of _ "c # u"] exI [of _ s'] exI [of _ prev']) auto
    qed
  next
    case False
    with Cons.prems have "lo = 0" "k prev (c # cs) = Some x"
      by (auto split: if_splits)
    then show ?thesis
      by (intro exI [of _ "[]"] exI [of _ "c # cs"] exI [of _ prev]) simp
  qed
qed

lemma list_all_filter_id: "list_all D u \<Longrightarrow> filter D u = u"
  by (induction u) auto

lemma rmatch_sound:
  "rmatch r prev s k = Some x \<Longrightarrow>
     \<exists>u s' prev'. s = u @ s' \<and> (avoids c r \<longrightarrow> c \<notin> set u)
       \<and> min_count D r \<le> length (filter D u) \<and> k prev' s' = Some x"
proof (induction r arbitrary: prev s k x)
  case (Cls p)
  then obtain a cs where s: "s = a # cs" "p a" "k (Some a) cs = Some x"
    by (auto split: list.splits if_splits)
  then show ?case
    by (intro exI [of _ "[a]"] exI [of _ cs] exI [of _ "Some a"]) (auto simp: only_in_def)
next
  case (Seq a b)
  from Seq.prems have "rmatch a prev s (\<lambda>prev' s'. rmatch b prev' s' k) = Some x"
    by simp
  from Seq.IH(1) [OF this] obtain u1 s1 p1 where
    1: "s = u1 @ s1" "avoids c a \<longrightarrow> c \<notin> set u1" "min_count D a \<le> length (filter D u1)"
      "rmatch b p1 s1 k = Some x"
    by blast
  from Seq.IH(2) [OF 1(4)] obtain u2 s2 p2 where
    2: "s1 = u2 @ s2" "avoids c b \<longrightarrow> c \<notin> set u2" "min_count D b \<le> length (filter D u2)"
      "k p2 s2 = Some x"
    by blast
  from 1 2 show ?case
    by (intro exI [of _ "u1 @ u2"] exI [of _ s2] exI [of _ p2]) auto
next
  case (Alt a b)
  show ?case
  proof (cases "rmatch a prev s k")
    case None
    with Alt.prems have "rmatch b prev s k = Some x"
      by simp
    from Alt.IH(2) [OF this] show ?thesis
      by (auto intro: min.coboundedI2)
  next
    case (Some r)
    with Alt.prems have "rmatch a prev s k = Some x"
      by simp
    from Alt.IH(1) [OF this] show ?thesis
      by (auto intro: min.coboundedI1)
  qed
next
  case (Opt a)
  show ?case
  proof (cases "rmatch a prev s k")
    case None
    with Opt.prems have "k prev s = Some x"
      by simp
    then show ?thesis
      by (intro exI [of _ "[]"] exI [of _ s] exI [of _ prev]) simp
  next
    case (Some r)
    with Opt.prems have "rmatch a prev s k = Some x"
      by simp
    from Opt.IH [OF this] show ?thesis
      by auto
  qed
next
  case (Rep p lo hi)
  then have "rep_match p lo hi prev s k = Some x"
    by simp
  from rep_match_sound [OF this] obtain u s' prev' where
    u: "s = u @ s'" "list_all p u" "lo \<le> length u" "k prev' s' = Some x"
    by blast
  have "only_in D p \<Longrightarrow> filter D u = u"
    using u(2) by (intro list_all_filter_id) (auto simp: only_in_def list_all_iff)
  with u show ?case
    by (intro exI [of _ u] exI [of _ s'] exI [of _ prev']) (auto simp: list_all_iff)
next
  case WordB
  then show ?case
    by (intro exI [of _ "[]"] exI [of _ s] exI [of _ prev]) (auto split: if_splits)
next
  case Bol
  then show ?case
    by (intro exI [of _ "[]"] exI [of _ s] exI [of _ prev]) (auto split: if_splits)
next
  case Eol
  then show ?case
    by (intro exI [of _ "[]"] exI [of _ s] exI [of _ prev]) (auto split: if_splits)
next
  case Eps
  then show ?case
    by (intro exI [of _ "[]"] exI [of _ s] exI [of _ prev]) auto
qed

lemma match_at_sound:
  assumes "match_at r prev s = Some (p', s')"
  shows "\<exists>u. s = u @ s' \<and> (avoids c r \<longrightarrow> c \<notin> set u) \<and> min_count D r \<le> length (filter D u)"
  using rmatch_sound [of r prev s "\<lambda>prev' s'. Some (prev', s')" "(p', s')" c D] assms
  by (auto simp: match_at_def)

lemma search_from_sound:
  "search_from r prev s = Some m \<Longrightarrow>
     \<exists>a b. s = a @ m @ b \<and> (avoids c r \<longrightarrow> c \<notin> set m) \<and> min_count D r \<le> length (filter D m)"
proof (induction s arbitrary: prev)
  case Nil
  then obtain p' s' where "match_at r prev [] = Some (p', s')" "m = []"
    by (auto split: option.splits)
  with match_at_sound [of r prev "[]" p' s' c D] show ?case
    by auto
next
  case (Cons x xs)
  show ?case
  proof (cases "match_at r prev (x # xs)")
    case None
    with Cons.prems have "search_from r (Some x) xs = Some m"
      by simp
    from Cons.IH [OF this] obtain a b where
      "xs = a @ m @ b" "avoids c r \<longrightarrow> c \<notin> set m" "min_count D r \<le> length (filter D m)"
      by blast
    then show ?thesis
      by (intro exI [of _ "x # a"] exI [of _ b]) simp
  next
    case (Some ps)
    obtain p' s' where ps: "ps = (p', s')"
      by (cases ps)
    from match_at_sound [of r prev "x # xs" p' s' c D] Some ps obtain u where
      u: "x # xs = u @ s'" "avoids c r \<longrightarrow> c \<notin> set u" "min_count D r \<le> length (filter D u)"
      by blast
    from Cons.prems Some ps have "m = take (Suc (length xs) - length s') (x # xs)"
      by simp
    also have "Suc (length xs) - length s' = length u"
      using arg_cong [OF u(1), of length] by simp
    finally have "m = u"
      using u(1) by simp
    with u show ?thesis
      by (intro exI [of _ "[]"] exI [of _ s']) simp
  qed
qed

lemma window_bound:
  assumes "xs @ c # ys = a @ m @ b" and "c \<notin> set m"
  shows "length (filter D m) \<le> max (length (filter D xs)) (length (filter D ys))"
proof -
  from assms(1) consider
      (left) us where "xs = a @ us" "us @ c # ys = m @ b"
    | (right) us where "xs @ us = a" "c # ys = us @ m @ b"
    by (auto simp: append_eq_append_conv2)
  then show ?thesis
  proof cases
    case left
    from left(2) consider
        (inside) vs where "us = m @ vs"
      | (across) vs where "us @ vs = m" "c # ys = vs @ b"
      by (auto simp: append_eq_append_conv2)
    then show ?thesis
    proof cases
      case inside
      with left(1) show ?thesis by simp
    next
      case across
      show ?thesis
      proof (cases vs)
        case Nil
        with across left(1) show ?thesis by simp
      next
        case (Cons v vs')
        with across assms(2) show ?thesis by auto
      qed
    qed
  next
    case right
    show ?thesis
    proof (cases us)
      case Nil
      with right(2) assms(2) have "m = []"
        by (cases m) auto
      then show ?thesis by simp
    next
      case (Cons u us')
      with right(2) have "ys = us' @ m @ b"
        by simp
      then show ?thesis by simp
    qed
  qed
qed

lemma avoids_hyphen: "avoids CHR ''-'' fallback_phone_pattern"
  by (simp add: fallback_phone_pattern_def lit_def is_space_def re_digit_def between_def
        code_point_def)

lemma only_digits:
  "only_in re_digit re_digit"
  "only_in re_digit (between CHR ''1'' CHR ''9'')"
  "only_in re_digit (\<lambda>x. x = CHR ''0'')"
  "only_in re_digit (\<lambda>x. x = CHR ''4'')"
  by (simp_all add: only_in_def re_digit_def between_def code_point_def)

lemma needs_eight_digits: "8 \<le> min_count re_digit fallback_phone_pattern"
  by (simp add: fallback_phone_pattern_def lit_def only_digits)

lemma four_digits:
  assumes "list_all (\<lambda>c. \<not> re_digit c) other" and "length year = 4" and "list_all re_digit year"
  shows "length (filter re_digit (other @ year)) = 4"
    and "length (filter re_digit (year @ other)) = 4"
proof -
  have "filter re_digit other = []"
    using assms(1) by (induction other) auto
  moreover have "filter re_digit year = year"
    using assms(3) by (rule list_all_filter_id)
  ultimately show "length (filter re_digit (other @ year)) = 4"
    and "length (filter re_digit (year @ other)) = 4"
    using assms(2) by simp_all
qed

text \<open>
  C7: in a text whose only digits are those of a year range, four digits, a hyphen and
  four digits, the fallback phone pattern matches nowhere, and the fallback extraction
  returns the empty string as phone.
\<close>

theorem year_range_is_no_phone:
  assumes "list_all (\<lambda>c. \<not> re_digit c) pre" and "list_all (\<lambda>c. \<not> re_digit c) post"
    and "length year1 = 4" and "list_all re_digit year1"
    and "length year2 = 4" and "list_all re_digit year2"
  shows "re_search fallback_phone_pattern (pre @ year1 @ ''-'' @ year2 @ post) = None
         \<and> fb_phone (fallback_extract (pre @ year1 @ ''-'' @ year2 @ post)) = ''''"
proof -
  let ?t = "pre @ year1 @ ''-'' @ year2 @ post"
  have none: "re_search fallback_phone_pattern ?t = None"
  proof (rule ccontr)
    assume "re_search fallback_phone_pattern ?t \<noteq> None"
    then obtain m where "search_from fallback_phone_pattern None ?t = Some m"
      by (auto simp: re_search_def)
    from search_from_sound [OF this, of "CHR ''-''" re_digit] avoids_hyphen needs_eight_digits
    obtain a b where m: "?t = a @ m @ b" "CHR ''-'' \<notin> set m" "8 \<le> length (filter re_digit m)"
      by auto
    from m(1) have "(pre @ year1) @ CHR ''-'' # (year2 @ post) = a @ m @ b"
      by simp
    from window_bound [OF this m(2), of re_digit]
    have "length (filter re_digit m) \<le> 4"
      using four_digits(1) [OF assms(1,3,4)] four_digits(2) [OF assms(2,5,6)] by simp
    with m(3) show False
      by simp
  qed
  then show ?thesis
    by (simp add: fallback_extract_def group_or_empty_def)
qed

text \<open>The text \<^verbatim>\<open>Worked 2020-2022 at Acme\<close>.\<close>

theorem year_range_is_no_phone_witness:
  "re_search fallback_phone_pattern ''Worked 2020-2022 at Acme'' = None
   \<and> fb_phone (fallback_extract ''Worked 2020-2022 at Acme'') = ''''"
  using year_range_is_no_phone [of "''Worked ''" "'' at Acme''" "''2020''" "''2022''"]
  by (simp add: re_digit_def between_def code_point_def)

end
